theory Spec2Isabelle
  imports Main "HOL-Library.Sublist"
begin

section \<open>Layered configuration of kedro-azureml (config.py)\<close>

text \<open>
  The configuration classes are pydantic (version 1) models. A raw document is what
  \<^verbatim>\<open>yaml.safe_load\<close> hands over: scalars and string-keyed mappings. A Python dict is an
  association list read through \<^const>\<open>map_of\<close>; sequences and floating point scalars are
  left out of the document type.
\<close>

datatype raw =
    RNull
  | RBool bool
  | RInt int
  | RStr string
  | RDict "(string \<times> raw) list"

subsection \<open>The models\<close>

record DockerConfig =
  image :: string

record AzureTempStorageConfig =
  account_name :: string
  container :: string

record ResourceConfig =
  cluster_name :: string

text \<open>
  \<^verbatim>\<open>class DefaultConfigDict(defaultdict)\<close>: the state of a defaultdict is its
  \<^verbatim>\<open>default_factory\<close> (here the constant function \<^verbatim>\<open>lambda: default_value\<close>, kept as the
  value it returns; \<open>None\<close> is a defaultdict without factory) and its stored items.
\<close>

record DefaultConfigDict =
  default_factory :: "ResourceConfig option"
  items :: "string \<rightharpoonup> ResourceConfig"

datatype KeyError = KeyError string

subsection \<open>DefaultConfigDict\<close>

text \<open>
  \<^verbatim>\<open>defaultdict.__getitem__\<close> (the \<^verbatim>\<open>super().__getitem__\<close> of the source): a stored key
  is read; a missing key calls \<^verbatim>\<open>__missing__\<close>, which raises \<^verbatim>\<open>KeyError\<close> without a factory
  and otherwise stores the factory's value under the key and returns it.
\<close>

definition super_getitem ::
  "DefaultConfigDict \<Rightarrow> string \<Rightarrow> KeyError + (ResourceConfig \<times> DefaultConfigDict)" where
  "super_getitem d key =
     (case items d key of
        Some v \<Rightarrow> Inr (v, d)
      | None \<Rightarrow>
          (case default_factory d of
             None \<Rightarrow> Inl (KeyError key)
           | Some v \<Rightarrow> Inr (v, d\<lparr>items := (items d)(key \<mapsto> v)\<rparr>)))"

text \<open>
  \<^verbatim>\<open>this.dict(exclude_none=True)\<close>: the fields of the record whose value is not \<^verbatim>\<open>None\<close>.
  The only field, \<^verbatim>\<open>cluster_name: str\<close>, is never \<^verbatim>\<open>None\<close>.
\<close>

definition dict_exclude_none :: "ResourceConfig \<Rightarrow> (string \<times> string) list" where
  "dict_exclude_none this = [(''cluster_name'', cluster_name this)]"

text \<open>
  \<^verbatim>\<open>defaults.copy(update=...)\<close>: a new record with the fields of \<^verbatim>\<open>defaults\<close>, each field
  named in the update taking the update's value. The receiver is left as it is.
\<close>

definition copy_update :: "ResourceConfig \<Rightarrow> (string \<times> string) list \<Rightarrow> ResourceConfig" where
  "copy_update defaults update =
     (case map_of update ''cluster_name'' of
        None \<Rightarrow> defaults
      | Some c \<Rightarrow> defaults\<lparr>cluster_name := c\<rparr>)"

text \<open>
  Truth value of a model instance in \<^verbatim>\<open>... if defaults else this\<close>: a pydantic model
  defines neither \<^verbatim>\<open>__bool__\<close> nor \<^verbatim>\<open>__len__\<close>, so every instance is true.
\<close>

definition truthy :: "ResourceConfig \<Rightarrow> bool" where
  "truthy m = True"

text \<open>\<^verbatim>\<open>DefaultConfigDict.__getitem__\<close>, with the dictionary passed through both reads.\<close>

definition getitem ::
  "DefaultConfigDict \<Rightarrow> string \<Rightarrow> KeyError + (ResourceConfig \<times> DefaultConfigDict)" where
  "getitem d key =
     (case super_getitem d ''__default__'' of
        Inl e \<Rightarrow> Inl e
      | Inr (defaults, d1) \<Rightarrow>
          (case super_getitem d1 key of
             Inl e \<Rightarrow> Inl e
           | Inr (this, d2) \<Rightarrow>
               Inr (if truthy defaults then copy_update defaults (dict_exclude_none this)
                    else this, d2)))"

subsection \<open>Field validation\<close>

text \<open>
  A \<^verbatim>\<open>ValidationError\<close> carries the list of the errors found, each with the location
  (the path of field names) and the kind of error.
\<close>

datatype error_type =
    Missing          \<comment> \<open>\<^verbatim>\<open>field required\<close>\<close>
  | NoneNotAllowed   \<comment> \<open>\<^verbatim>\<open>none is not an allowed value\<close>\<close>
  | StrError         \<comment> \<open>\<^verbatim>\<open>str type expected\<close>\<close>
  | IntTooLong       \<comment> \<open>\<^verbatim>\<open>Exceeds the limit (4300 digits) for integer string conversion\<close>\<close>
  | DictError        \<comment> \<open>\<^verbatim>\<open>value is not a valid dict\<close>\<close>
  | ExpectedDict     \<comment> \<open>\<^verbatim>\<open>parse_obj\<close>: \<^verbatim>\<open>expected dict not ...\<close>, at \<^verbatim>\<open>__root__\<close>\<close>

type_synonym loc = "string list"
type_synonym ValidationError = "(loc \<times> error_type) list"

text \<open>Python's \<^verbatim>\<open>str\<close> of an \<^verbatim>\<open>int\<close>: the decimal digits, after a minus sign when negative.\<close>

fun str_nat :: "nat \<Rightarrow> string" where
  "str_nat n =
     (if n < 10 then [char_of (48 + n)]
      else str_nat (n div 10) @ [char_of (48 + n mod 10)])"

declare str_nat.simps [simp del]

definition str_int :: "int \<Rightarrow> string" where
  "str_int i = (if i < 0 then CHR ''-'' # str_nat (nat (- i)) else str_nat (nat i))"

text \<open>
  \<^verbatim>\<open>str\<close> of an \<^verbatim>\<open>int\<close> raises \<^verbatim>\<open>ValueError\<close> when the number has more decimal digits, the
  sign not counted, than the interpreter's limit, which is 4300 unless it is configured
  otherwise.
\<close>

definition int_max_str_digits :: nat where
  "int_max_str_digits = 4300"

text \<open>
  pydantic's validator of a \<^verbatim>\<open>str\<close> field: a string is taken as it is, a number is turned
  into its \<^verbatim>\<open>str\<close> (\<^verbatim>\<open>bool\<close> is a subclass of \<^verbatim>\<open>int\<close>) and the \<^verbatim>\<open>ValueError\<close> of that
  conversion is an error of the field, anything else is refused. No length of the string
  is asked for.
\<close>

fun str_validator :: "raw \<Rightarrow> error_type + string" where
  "str_validator (RStr s) = Inr s"
| "str_validator (RInt i) =
     (if int_max_str_digits < length (str_nat (nat \<bar>i\<bar>)) then Inl IntTooLong
      else Inr (str_int i))"
| "str_validator (RBool b) = Inr (if b then ''True'' else ''False'')"
| "str_validator RNull = Inl StrError"
| "str_validator (RDict d) = Inl StrError"

text \<open>
  Where a mapping is expected, a dict is taken as it is and any other value \<^verbatim>\<open>v\<close> goes
  through \<^verbatim>\<open>dict(v)\<close>: the empty string gives the empty dict, every other scalar fails.
\<close>

fun dict_validator :: "raw \<Rightarrow> (string \<times> raw) list option" where
  "dict_validator (RDict d) = Some d"
| "dict_validator (RStr s) = (if s = [] then Some [] else None)"
| "dict_validator RNull = None"
| "dict_validator (RBool b) = None"
| "dict_validator (RInt i) = None"

text \<open>A required field of type \<^verbatim>\<open>str\<close>, read from the mapping of its model.\<close>

definition str_field :: "(string \<times> raw) list \<Rightarrow> string \<Rightarrow> ValidationError + string" where
  "str_field d name =
     (case map_of d name of
        None \<Rightarrow> Inl [([name], Missing)]
      | Some RNull \<Rightarrow> Inl [([name], NoneNotAllowed)]
      | Some v \<Rightarrow>
          (case str_validator v of
             Inl e \<Rightarrow> Inl [([name], e)]
           | Inr s \<Rightarrow> Inr s))"

text \<open>The errors of a nested model are reported below the location of its field.\<close>

definition below :: "string \<Rightarrow> ValidationError \<Rightarrow> ValidationError" where
  "below name errors = map (\<lambda>(l, e). (name # l, e)) errors"

text \<open>A required field whose type is a model, validated by \<open>validate\<close>.\<close>

definition model_field ::
  "((string \<times> raw) list \<Rightarrow> ValidationError + 'a) \<Rightarrow> (string \<times> raw) list \<Rightarrow> string
     \<Rightarrow> ValidationError + 'a" where
  "model_field validate d name =
     (case map_of d name of
        None \<Rightarrow> Inl [([name], Missing)]
      | Some RNull \<Rightarrow> Inl [([name], NoneNotAllowed)]
      | Some v \<Rightarrow>
          (case dict_validator v of
             None \<Rightarrow> Inl [([name], DictError)]
           | Some d' \<Rightarrow>
               (case validate d' of
                  Inl errors \<Rightarrow> Inl (below name errors)
                | Inr m \<Rightarrow> Inr m)))"

text \<open>
  A model validates its fields in the order of their declaration and gathers the errors
  of all of them; the instance is built only when there is none. \<open>collect\<close> adds one
  field to the fields validated so far.
\<close>

fun collect :: "ValidationError + ('a \<Rightarrow> 'b) \<Rightarrow> ValidationError + 'a \<Rightarrow> ValidationError + 'b" where
  "collect (Inr f) (Inr x) = Inr (f x)"
| "collect (Inl es) (Inr x) = Inl es"
| "collect (Inr f) (Inl es) = Inl es"
| "collect (Inl es) (Inl es') = Inl (es @ es')"

definition validate_DockerConfig :: "(string \<times> raw) list \<Rightarrow> ValidationError + DockerConfig" where
  "validate_DockerConfig d =
     collect (Inr (\<lambda>i. \<lparr>image = i\<rparr>)) (str_field d ''image'')"

definition validate_AzureTempStorageConfig ::
  "(string \<times> raw) list \<Rightarrow> ValidationError + AzureTempStorageConfig" where
  "validate_AzureTempStorageConfig d =
     collect (collect (Inr (\<lambda>a c. \<lparr>account_name = a, container = c\<rparr>))
       (str_field d ''account_name''))
       (str_field d ''container'')"

definition validate_ResourceConfig :: "(string \<times> raw) list \<Rightarrow> ValidationError + ResourceConfig" where
  "validate_ResourceConfig d =
     collect (Inr (\<lambda>c. \<lparr>cluster_name = c\<rparr>)) (str_field d ''cluster_name'')"

subsection \<open>The resources table\<close>

text \<open>
  \<^verbatim>\<open>AzureMLConfig._create_default_dict_with\<close>, with \<^verbatim>\<open>dict_cls\<close> at its default
  \<^verbatim>\<open>DefaultConfigDict\<close>. \<^verbatim>\<open>value or {}\<close> replaces \<^verbatim>\<open>None\<close> (and the empty dict) by the
  empty dict.
\<close>

definition create_default_dict_with ::
  "(string \<rightharpoonup> ResourceConfig) option \<Rightarrow> ResourceConfig \<Rightarrow> DefaultConfigDict" where
  "create_default_dict_with value default' =
     (let value = (case value of None \<Rightarrow> Map.empty | Some m \<Rightarrow> m);
          default_value = (case value ''__default__'' of None \<Rightarrow> default' | Some v \<Rightarrow> v)
      in \<lparr>default_factory = Some default_value, items = value\<rparr>)"

text \<open>The validator of the field \<^verbatim>\<open>resources\<close>.\<close>

definition validate_resources :: "(string \<rightharpoonup> ResourceConfig) option \<Rightarrow> DefaultConfigDict" where
  "validate_resources value =
     create_default_dict_with value \<lparr>cluster_name = ''{cluster_name}''\<rparr>"

text \<open>
  One value of the mapping \<^verbatim>\<open>Dict[str, ResourceConfig]\<close>, stored under the key \<open>k\<close>: null
  is not allowed, any other value is validated as a \<^verbatim>\<open>ResourceConfig\<close>.
\<close>

definition validate_singleton :: "string \<Rightarrow> raw \<Rightarrow> ValidationError + ResourceConfig" where
  "validate_singleton k v =
     (if v = RNull then Inl [([k], NoneNotAllowed)]
      else
        (case dict_validator v of
           None \<Rightarrow> Inl [([k], DictError)]
         | Some d \<Rightarrow>
             (case validate_ResourceConfig d of
                Inl errors \<Rightarrow> Inl (below k errors)
              | Inr r \<Rightarrow> Inr r)))"

text \<open>
  The loop over the items of the mapping: every value is validated, the valid ones are
  stored in \<open>result\<close>, the errors of the others are gathered.
\<close>

fun validate_mapping_like ::
  "(string \<times> raw) list \<Rightarrow> (string \<rightharpoonup> ResourceConfig) \<Rightarrow> ValidationError
     \<Rightarrow> ValidationError + (string \<rightharpoonup> ResourceConfig)" where
  "validate_mapping_like [] result errors = (if errors = [] then Inr result else Inl errors)"
| "validate_mapping_like ((k, v) # rest) result errors =
     (case validate_singleton k v of
        Inl es \<Rightarrow> validate_mapping_like rest result (errors @ es)
      | Inr r \<Rightarrow> validate_mapping_like rest (result(k \<mapsto> r)) errors)"

text \<open>
  The field \<^verbatim>\<open>resources: Optional[Dict[str, ResourceConfig]]\<close> with its validator declared
  \<^verbatim>\<open>always=True\<close>: a missing key takes the default \<^verbatim>\<open>None\<close>, and \<^verbatim>\<open>None\<close> goes to the
  validator as it is; a value that passed the mapping's validation goes to the validator;
  a value that did not is an error and the validator is not run.
\<close>

definition resources_field :: "(string \<times> raw) list \<Rightarrow> ValidationError + DefaultConfigDict" where
  "resources_field d =
     (case map_of d ''resources'' of
        None \<Rightarrow> Inr (validate_resources None)
      | Some RNull \<Rightarrow> Inr (validate_resources None)
      | Some v \<Rightarrow>
          (case dict_validator v of
             None \<Rightarrow> Inl [([''resources''], DictError)]
           | Some rs \<Rightarrow>
               (case validate_mapping_like rs Map.empty [] of
                  Inl errors \<Rightarrow> Inl (below ''resources'' errors)
                | Inr m \<Rightarrow> Inr (validate_resources (Some m)))))"

subsection \<open>The configuration\<close>

record AzureMLConfig =
  experiment_name :: string
  workspace_name :: string
  resource_group :: string
  cluster_name :: string
  temporary_storage :: AzureTempStorageConfig
  resources :: DefaultConfigDict

record KedroAzureMLConfig =
  azure :: AzureMLConfig
  docker :: DockerConfig

definition validate_AzureMLConfig :: "(string \<times> raw) list \<Rightarrow> ValidationError + AzureMLConfig" where
  "validate_AzureMLConfig d =
     collect (collect (collect (collect (collect (collect
       (Inr (\<lambda>e w g c t r.
          \<lparr>experiment_name = e, workspace_name = w, resource_group = g, cluster_name = c,
           temporary_storage = t, resources = r\<rparr>))
       (str_field d ''experiment_name''))
       (str_field d ''workspace_name''))
       (str_field d ''resource_group''))
       (str_field d ''cluster_name''))
       (model_field validate_AzureTempStorageConfig d ''temporary_storage''))
       (resources_field d)"

definition validate_KedroAzureMLConfig ::
  "(string \<times> raw) list \<Rightarrow> ValidationError + KedroAzureMLConfig" where
  "validate_KedroAzureMLConfig d =
     collect (collect (Inr (\<lambda>a k. \<lparr>azure = a, docker = k\<rparr>))
       (model_field validate_AzureMLConfig d ''azure''))
       (model_field validate_DockerConfig d ''docker'')"

text \<open>
  \<^verbatim>\<open>KedroAzureMLConfig.parse_obj\<close>, the way a document becomes a configuration (it is how
  the module validates its own template): the document must be a mapping.
\<close>

definition parse_obj :: "raw \<Rightarrow> ValidationError + KedroAzureMLConfig" where
  "parse_obj obj =
     (case dict_validator obj of
        None \<Rightarrow> Inl [([''__root__''], ExpectedDict)]
      | Some d \<Rightarrow> validate_KedroAzureMLConfig d)"

text \<open>
  The value of the expression \<^verbatim>\<open>table[key]\<close>, which the specification calls
  \<^verbatim>\<open>resolve(key)\<close>: the record that \<^const>\<open>getitem\<close> returns, without the dictionary.
\<close>

definition resolve :: "DefaultConfigDict \<Rightarrow> string \<Rightarrow> KeyError + ResourceConfig" where
  "resolve d key = (case getitem d key of Inl e \<Rightarrow> Inl e | Inr (r, d') \<Rightarrow> Inr r)"

text \<open>The value a document holds at a path of keys, each level read as a mapping.\<close>

fun at_path :: "raw \<Rightarrow> string list \<Rightarrow> raw option" where
  "at_path v [] = Some v"
| "at_path v (k # ks) =
     (case dict_validator v of
        None \<Rightarrow> None
      | Some d \<Rightarrow> (case map_of d k of None \<Rightarrow> None | Some v' \<Rightarrow> at_path v' ks))"

section \<open>Dataset constructors (datasets/models.py, datasets/folder_dataset.py)\<close>

text \<open>
  What a constructor can raise: kedro's \<^verbatim>\<open>DataSetError\<close> with its message, pydantic's
  \<^verbatim>\<open>ValidationError\<close>, or an exception of a callee that the constructor does not catch.
\<close>

datatype exception =
    DataSetError string
  | PydanticValidationError ValidationError
  | Uncaught string

fun raises_ValidationError :: "exception + 'a \<Rightarrow> bool" where
  "raises_ValidationError (Inl (PydanticValidationError es)) = True"
| "raises_ValidationError (Inl (DataSetError m)) = False"
| "raises_ValidationError (Inl (Uncaught m)) = False"
| "raises_ValidationError (Inr x) = False"

fun raises_DataSetError :: "exception + 'a \<Rightarrow> bool" where
  "raises_DataSetError (Inl (DataSetError m)) = True"
| "raises_DataSetError (Inl (PydanticValidationError es)) = False"
| "raises_DataSetError (Inl (Uncaught m)) = False"
| "raises_DataSetError (Inr x) = False"

subsection \<open>MlflowAbstractModelDataSet\<close>

text \<open>
  The outcome of \<^verbatim>\<open>_import_module(flavor)\<close>, which depends on the modules installed: the
  module is imported, an \<^verbatim>\<open>ImportError\<close> is raised (by \<^verbatim>\<open>find_spec\<close>, by the check of
  its result or by \<^verbatim>\<open>import_module\<close>), or something else is raised.
\<close>

datatype import_outcome = Imported | RaisesImportError string | RaisesOther string

record ('v, 'path) MlflowAbstractModelDataSet =
  filepath :: 'path
  version :: "(string option \<times> string option) option"
  flavor :: string
  pyfunc_workflow :: "string option"
  logging_activated :: bool
  load_args :: "string \<rightharpoonup> 'v"
  save_args :: "string \<rightharpoonup> 'v"

text \<open>\<^verbatim>\<open>args or {}\<close>: \<^verbatim>\<open>None\<close> becomes the empty dict.\<close>

definition or_empty :: "(string \<rightharpoonup> 'v) option \<Rightarrow> (string \<rightharpoonup> 'v)" where
  "or_empty args = (case args of None \<Rightarrow> Map.empty | Some m \<Rightarrow> m)"

text \<open>
  \<^verbatim>\<open>MlflowAbstractModelDataSet.__init__\<close>. The parent's constructor, called with
  \<^verbatim>\<open>Path(filepath)\<close>, and the setter of \<^verbatim>\<open>_logging_activated\<close> (called with \<^verbatim>\<open>True\<close>) only
  store their arguments. The import of the flavor is the parameter \<open>import_module\<close>, and
  \<^verbatim>\<open>pathlib.Path\<close>, which turns the string into a path, is the parameter \<open>Path\<close>.
\<close>

definition MlflowAbstractModelDataSet_init ::
  "(string \<Rightarrow> import_outcome) \<Rightarrow> (string \<Rightarrow> 'path) \<Rightarrow> string \<Rightarrow> string \<Rightarrow> string option
     \<Rightarrow> (string \<rightharpoonup> 'v) option \<Rightarrow> (string \<rightharpoonup> 'v) option
     \<Rightarrow> (string option \<times> string option) option
     \<Rightarrow> exception + ('v, 'path) MlflowAbstractModelDataSet" where
  "MlflowAbstractModelDataSet_init import_module Path filepath' flavor' pyfunc_workflow'
       load_args' save_args' version' =
     (if flavor' = ''mlflow.pyfunc''
         \<and> pyfunc_workflow' \<notin> set [Some ''python_model'', Some ''loader_module'']
      then Inl (DataSetError
        (''PyFunc models require specifying `pyfunc_workflow` '' @
         ''(set to either `python_model` or `loader_module`)''))
      else
        (case import_module flavor' of
           RaisesImportError err \<Rightarrow> Inl (DataSetError err)
         | RaisesOther err \<Rightarrow> Inl (Uncaught err)
         | Imported \<Rightarrow>
             Inr \<lparr>filepath = Path filepath', version = version', flavor = flavor',
                  pyfunc_workflow = pyfunc_workflow', logging_activated = True,
                  load_args = or_empty load_args', save_args = or_empty save_args'\<rparr>))"

subsection \<open>AzureMLFolderDataSet\<close>

text \<open>The two keys of \<^verbatim>\<open>kedro.io.core\<close> that the constructor imports.\<close>

definition VERSION_KEY :: string where
  "VERSION_KEY = ''version''"

definition VERSIONED_FLAG_KEY :: string where
  "VERSIONED_FLAG_KEY = ''versioned''"

text \<open>
  The parent class \<^verbatim>\<open>AzureMLPipelineDataSet\<close> is in a module that is not part of the
  sources at hand. Its constructor is a parameter: from \<^verbatim>\<open>dataset\<close> and \<^verbatim>\<open>filepath_arg\<close>
  it either raises or leaves an object with the attribute \<^verbatim>\<open>_dataset_config\<close> (a dict)
  and whatever else it stores.
\<close>

record ('v, 'p) AzureMLPipelineDataSet =
  dataset_config :: "string \<rightharpoonup> 'v"
  pipeline_state :: 'p

record ('v, 'p) AzureMLFolderDataSet =
  parent :: "('v, 'p) AzureMLPipelineDataSet"
  azureml_dataset :: string

text \<open>
  \<^verbatim>\<open>AzureMLFolderDataSet.__init__\<close>; \<open>class_name\<close> is \<^verbatim>\<open>self.__class__.__name__\<close>, the name
  of the class under construction.
\<close>

definition versioning_message :: "string \<Rightarrow> string" where
  "versioning_message class_name =
     [CHR 0x27] @ class_name @ [CHR 0x27] @ '' does not support versioning of the '' @
     ''underlying dataset. Please remove '' @ [CHR 0x27] @ VERSIONED_FLAG_KEY @ [CHR 0x27] @
     '' flag from '' @ ''the dataset definition.''"

definition AzureMLFolderDataSet_init ::
  "('d \<Rightarrow> string \<Rightarrow> exception + ('v, 'p) AzureMLPipelineDataSet) \<Rightarrow> string \<Rightarrow> string \<Rightarrow> 'd
     \<Rightarrow> string \<Rightarrow> exception + ('v, 'p) AzureMLFolderDataSet" where
  "AzureMLFolderDataSet_init super_init class_name azureml_dataset' dataset filepath_arg =
     (case super_init dataset filepath_arg of
        Inl e \<Rightarrow> Inl e
      | Inr self \<Rightarrow>
          (if VERSION_KEY \<in> dom (dataset_config self)
           then Inl (DataSetError (versioning_message class_name))
           else Inr \<lparr>parent = self, azureml_dataset = azureml_dataset'\<rparr>))"

section \<open>Documents\<close>

text \<open>\<^verbatim>\<open>yaml.safe_load(CONFIG_TEMPLATE_YAML)\<close>, the template the module validates on import.\<close>

definition CONFIG_TEMPLATE :: raw where
  "CONFIG_TEMPLATE =
     RDict [
       (''azure'', RDict [
          (''cluster_name'', RStr ''{cluster_name}''),
          (''experiment_name'', RStr ''{experiment_name}''),
          (''resource_group'', RStr ''{resource_group}''),
          (''workspace_name'', RStr ''{workspace_name}''),
          (''temporary_storage'', RDict [
             (''account_name'', RStr ''{storage_account_name}''),
             (''container'', RStr ''{storage_container}'')]),
          (''resources'', RDict [
             (''__default__'', RDict [(''cluster_name'', RStr ''{cluster_name}'')]),
             (''chunky'', RDict [(''cluster_name'', RStr ''chunky-cpu-cluster'')])])]),
       (''docker'', RDict [(''image'', RStr ''{docker_image}'')])]"

text \<open>
  A document for the cluster \<^verbatim>\<open>base-cluster\<close> with the given experiment name and storage
  section, and with further entries of the \<^verbatim>\<open>azure\<close> section (the resources, if any).
\<close>

definition example_document :: "raw \<Rightarrow> (string \<times> raw) list \<Rightarrow> (string \<times> raw) list \<Rightarrow> raw" where
  "example_document name storage more_entries =
     RDict [
       (''azure'', RDict ([
          (''cluster_name'', RStr ''base-cluster''),
          (''experiment_name'', name),
          (''resource_group'', RStr ''rg''),
          (''workspace_name'', RStr ''ws''),
          (''temporary_storage'', RDict storage)] @ more_entries)),
       (''docker'', RDict [(''image'', RStr ''img'')])]"

definition example_storage :: "(string \<times> raw) list" where
  "example_storage = [(''account_name'', RStr ''acc''), (''container'', RStr ''box'')]"

text \<open>The resources of the specification's example of precedence.\<close>

definition override_resources :: raw where
  "override_resources =
     RDict [(''__default__'', RDict [(''cluster_name'', RStr ''A'')]),
            (''foo'', RDict [(''cluster_name'', RStr ''B'')])]"

text \<open>Resources without the entry \<^verbatim>\<open>__default__\<close>.\<close>

definition chunky_resources :: raw where
  "chunky_resources = RDict [(''chunky'', RDict [(''cluster_name'', RStr ''chunky-cpu-cluster'')])]"

text \<open>The errors of a result, none when it is a value.\<close>

definition errors_of :: "ValidationError + 'a \<Rightarrow> ValidationError" where
  "errors_of r = (case r of Inl es \<Rightarrow> es | Inr x \<Rightarrow> [])"

text \<open>The string a document gives for a \<^verbatim>\<open>str\<close> field at a path, if any.\<close>

definition str_at :: "raw \<Rightarrow> string list \<Rightarrow> string option" where
  "str_at doc path =
     (case at_path doc path of
        None \<Rightarrow> None
      | Some v \<Rightarrow> (case str_validator v of Inl e \<Rightarrow> None | Inr s \<Rightarrow> Some s))"

text \<open>The paths of the required \<^verbatim>\<open>str\<close> fields of \<^verbatim>\<open>KedroAzureMLConfig\<close>.\<close>

definition required_str_fields :: "string list list" where
  "required_str_fields =
     [[''azure'', ''experiment_name''], [''azure'', ''workspace_name''],
      [''azure'', ''resource_group''], [''azure'', ''cluster_name''],
      [''azure'', ''temporary_storage'', ''account_name''],
      [''azure'', ''temporary_storage'', ''container''],
      [''docker'', ''image'']]"

text \<open>The string a configuration holds for the required \<^verbatim>\<open>str\<close> field at a path.\<close>

definition config_field :: "KedroAzureMLConfig \<Rightarrow> string list \<Rightarrow> string option" where
  "config_field cfg path =
     map_of
       [([''azure'', ''experiment_name''], experiment_name (azure cfg)),
        ([''azure'', ''workspace_name''], workspace_name (azure cfg)),
        ([''azure'', ''resource_group''], resource_group (azure cfg)),
        ([''azure'', ''cluster_name''], cluster_name (azure cfg)),
        ([''azure'', ''temporary_storage'', ''account_name''],
           account_name (temporary_storage (azure cfg))),
        ([''azure'', ''temporary_storage'', ''container''],
           container (temporary_storage (azure cfg))),
        ([''docker'', ''image''], image (docker cfg))]
       path"

text \<open>The dictionary after the lookups of a list of keys, one after the other.\<close>

fun getitems :: "DefaultConfigDict \<Rightarrow> string list \<Rightarrow> KeyError + DefaultConfigDict" where
  "getitems d [] = Inr d"
| "getitems d (k # ks) =
     (case getitem d k of Inl e \<Rightarrow> Inl e | Inr (r, d') \<Rightarrow> getitems d' ks)"

section \<open>Inversion of the validation\<close>

lemmas config_defs =
  parse_obj_def validate_KedroAzureMLConfig_def validate_AzureMLConfig_def
  validate_DockerConfig_def validate_AzureTempStorageConfig_def validate_ResourceConfig_def
  model_field_def str_field_def resources_field_def validate_singleton_def
  validate_resources_def create_default_dict_with_def below_def

lemmas document_defs =
  CONFIG_TEMPLATE_def example_document_def example_storage_def override_resources_def
  chunky_resources_def

lemmas lookup_defs =
  resolve_def getitem_def super_getitem_def copy_update_def dict_exclude_none_def truthy_def

lemma collect_Inr_iff:
  "collect f x = Inr y \<longleftrightarrow> (\<exists>g v. f = Inr g \<and> x = Inr v \<and> y = g v)"
  by (cases f; cases x) auto

lemma errors_of_collect: "errors_of (collect f x) = errors_of f @ errors_of x"
  by (cases f; cases x) (simp_all add: errors_of_def)

lemma isl_collect: "isl (collect f x) \<longleftrightarrow> isl f \<or> isl x"
  by (cases f; cases x) simp_all

lemma validate_AzureMLConfig_Inr:
  assumes "validate_AzureMLConfig d = Inr c"
  shows "str_field d ''experiment_name'' = Inr (experiment_name c)"
    and "str_field d ''workspace_name'' = Inr (workspace_name c)"
    and "str_field d ''resource_group'' = Inr (resource_group c)"
    and "str_field d ''cluster_name'' = Inr (cluster_name c)"
    and "model_field validate_AzureTempStorageConfig d ''temporary_storage'' = Inr (temporary_storage c)"
    and "resources_field d = Inr (resources c)"
  using assms by (auto simp: validate_AzureMLConfig_def collect_Inr_iff)

lemma validate_KedroAzureMLConfig_Inr:
  assumes "validate_KedroAzureMLConfig d = Inr c"
  shows "model_field validate_AzureMLConfig d ''azure'' = Inr (azure c)"
    and "model_field validate_DockerConfig d ''docker'' = Inr (docker c)"
  using assms by (auto simp: validate_KedroAzureMLConfig_def collect_Inr_iff)

lemma model_field_Inr:
  assumes "model_field validate d name = Inr m"
  shows "\<exists>v d'. map_of d name = Some v \<and> dict_validator v = Some d' \<and> validate d' = Inr m"
  using assms by (auto simp: model_field_def split: option.splits raw.splits sum.splits if_splits)

lemma str_field_Inr:
  assumes "str_field d name = Inr s"
  shows "\<exists>v. map_of d name = Some v \<and> str_validator v = Inr s"
  using assms by (auto simp: str_field_def split: option.splits raw.splits sum.splits if_splits)

lemma parse_obj_Inr:
  assumes "parse_obj doc = Inr cfg"
  shows "\<exists>top a az. dict_validator doc = Some top \<and> map_of top ''azure'' = Some a
           \<and> dict_validator a = Some az \<and> validate_AzureMLConfig az = Inr (azure cfg)
           \<and> model_field validate_DockerConfig top ''docker'' = Inr (docker cfg)"
proof -
  from assms obtain top where top: "dict_validator doc = Some top"
    and v: "validate_KedroAzureMLConfig top = Inr cfg"
    by (auto simp: parse_obj_def split: option.splits)
  from validate_KedroAzureMLConfig_Inr [OF v] model_field_Inr [of validate_AzureMLConfig top]
  show ?thesis using top by blast
qed

lemma resources_field_Inr:
  assumes "resources_field az = Inr t"
  shows "\<exists>value. t = validate_resources value"
  using assms by (auto simp: resources_field_def split: option.splits raw.splits sum.splits)

lemma parse_obj_resources:
  assumes "parse_obj doc = Inr cfg"
  shows "\<exists>value. resources (azure cfg) = validate_resources value"
  using parse_obj_Inr [OF assms] validate_AzureMLConfig_Inr(6) resources_field_Inr by blast

section \<open>Resolution of a resource key\<close>

lemma default_factory_validate_resources:
  "default_factory (validate_resources value) =
     Some (case items (validate_resources value) ''__default__'' of
             None \<Rightarrow> \<lparr>ResourceConfig.cluster_name = ''{cluster_name}''\<rparr> | Some d \<Rightarrow> d)"
  by (simp add: validate_resources_def create_default_dict_with_def Let_def)

lemma getitem_with_factory:
  assumes "default_factory t = Some D"
    and "items t ''__default__'' = None \<or> items t ''__default__'' = Some D"
  shows "getitem t k =
     Inr (D\<lparr>ResourceConfig.cluster_name :=
              ResourceConfig.cluster_name (case items t k of None \<Rightarrow> D | Some E \<Rightarrow> E)\<rparr>,
          t\<lparr>items := (items t)(''__default__'' \<mapsto> D,
                k \<mapsto> (case items t k of None \<Rightarrow> D | Some E \<Rightarrow> E))\<rparr>)"
  using assms
  by (auto simp: getitem_def super_getitem_def copy_update_def dict_exclude_none_def truthy_def
      map_upd_triv split: option.splits)


lemma table_of_parse:
  assumes "parse_obj doc = Inr cfg"
  shows "\<exists>D. default_factory (resources (azure cfg)) = Some D
           \<and> (items (resources (azure cfg)) ''__default__'' = None
                \<or> items (resources (azure cfg)) ''__default__'' = Some D)
           \<and> D = (case items (resources (azure cfg)) ''__default__'' of
                    None \<Rightarrow> \<lparr>ResourceConfig.cluster_name = ''{cluster_name}''\<rparr> | Some d \<Rightarrow> d)"
proof -
  from parse_obj_resources [OF assms] obtain "value"
    where t: "resources (azure cfg) = validate_resources value" by blast
  show ?thesis
    unfolding t by (simp add: default_factory_validate_resources split: option.splits)
qed

lemma resolve_with_factory:
  assumes "default_factory t = Some D"
    and "items t ''__default__'' = None \<or> items t ''__default__'' = Some D"
  shows "resolve t k =
     Inr (D\<lparr>ResourceConfig.cluster_name :=
              ResourceConfig.cluster_name (case items t k of None \<Rightarrow> D | Some E \<Rightarrow> E)\<rparr>)"
  by (simp add: resolve_def getitem_with_factory [OF assms])

lemma at_path_resources:
  assumes "parse_obj doc = Inr cfg" and "at_path doc [''azure'', ''resources''] = Some r"
  shows "\<exists>az. map_of az ''resources'' = Some r \<and> resources_field az = Inr (resources (azure cfg))"
proof -
  from parse_obj_Inr [OF assms(1)] obtain top a az where
    "dict_validator doc = Some top" "map_of top ''azure'' = Some a"
    "dict_validator a = Some az" "validate_AzureMLConfig az = Inr (azure cfg)"
    by blast
  with assms(2) validate_AzureMLConfig_Inr(6) [of az "azure cfg"] show ?thesis
    by (auto split: option.splits)
qed

text \<open>
  C1. In the table of a parsed configuration, with \<open>D\<close> the default record (the record
  stored under \<^verbatim>\<open>__default__\<close>, or the synthesized one when there is none): for a key
  other than \<^verbatim>\<open>__default__\<close> with a stored record \<open>E\<close>, the lookup returns \<open>D\<close> with the
  field of \<open>E\<close> written over it; for a key with no stored record it returns \<open>D\<close>; for
  \<^verbatim>\<open>__default__\<close> it returns \<open>D\<close>. For the resources
  \<^verbatim>\<open>{__default__: {cluster_name: A}, foo: {cluster_name: B}}\<close> the key \<^verbatim>\<open>foo\<close> resolves to
  \<^verbatim>\<open>B\<close> and every other key to \<^verbatim>\<open>A\<close>.
\<close>

theorem resolve_merges_default:
  assumes "parse_obj doc = Inr cfg"
  shows "\<exists>D. default_factory (resources (azure cfg)) = Some D
    \<and> D = (case items (resources (azure cfg)) ''__default__'' of
             None \<Rightarrow> \<lparr>ResourceConfig.cluster_name = ''{cluster_name}''\<rparr> | Some d \<Rightarrow> d)
    \<and> (\<forall>k E. k \<noteq> ''__default__'' \<and> items (resources (azure cfg)) k = Some E \<longrightarrow>
          resolve (resources (azure cfg)) k =
            Inr (D\<lparr>ResourceConfig.cluster_name := ResourceConfig.cluster_name E\<rparr>))
    \<and> (\<forall>k. k \<noteq> ''__default__'' \<and> items (resources (azure cfg)) k = None \<longrightarrow>
          resolve (resources (azure cfg)) k = Inr D)
    \<and> resolve (resources (azure cfg)) ''__default__'' = Inr D
    \<and> (at_path doc [''azure'', ''resources''] = Some override_resources \<longrightarrow>
          resolve (resources (azure cfg)) ''foo'' = Inr \<lparr>ResourceConfig.cluster_name = ''B''\<rparr>
          \<and> (\<forall>bar. bar \<noteq> ''foo'' \<longrightarrow>
                resolve (resources (azure cfg)) bar = Inr \<lparr>ResourceConfig.cluster_name = ''A''\<rparr>))"
proof -
  let ?t = "resources (azure cfg)"
  from table_of_parse [OF assms] obtain D where
    f: "default_factory ?t = Some D"
    and i: "items ?t ''__default__'' = None \<or> items ?t ''__default__'' = Some D"
    and D: "D = (case items ?t ''__default__'' of
                   None \<Rightarrow> \<lparr>ResourceConfig.cluster_name = ''{cluster_name}''\<rparr> | Some d \<Rightarrow> d)"
    by blast
  note r = resolve_with_factory [OF f i]
  have ex: "resolve ?t ''foo'' = Inr \<lparr>ResourceConfig.cluster_name = ''B''\<rparr>
          \<and> (\<forall>bar. bar \<noteq> ''foo'' \<longrightarrow>
                resolve ?t bar = Inr \<lparr>ResourceConfig.cluster_name = ''A''\<rparr>)"
    if "at_path doc [''azure'', ''resources''] = Some override_resources"
  proof -
    from at_path_resources [OF assms that] obtain az where
      "map_of az ''resources'' = Some override_resources" "resources_field az = Inr ?t"
      by blast
    then have t: "?t = validate_resources (Some
        [''__default__'' \<mapsto> \<lparr>ResourceConfig.cluster_name = ''A''\<rparr>,
         ''foo'' \<mapsto> \<lparr>ResourceConfig.cluster_name = ''B''\<rparr>])"
      by (simp add: resources_field_def override_resources_def validate_singleton_def
          validate_ResourceConfig_def str_field_def)
    show ?thesis
      unfolding t
      by (simp add: validate_resources_def create_default_dict_with_def lookup_defs)
  qed
  show ?thesis
  proof (intro exI [of _ D] conjI allI impI)
    show "default_factory ?t = Some D" by (rule f)
    show "D = (case items ?t ''__default__'' of
                   None \<Rightarrow> \<lparr>ResourceConfig.cluster_name = ''{cluster_name}''\<rparr> | Some d \<Rightarrow> d)"
      by (rule D)
    show "resolve ?t ''__default__'' = Inr D"
      using i by (auto simp: r)
  qed (use ex in \<open>auto simp: r\<close>)
qed


theorem resolve_merges_default_witness:
  "parse_obj (example_document (RStr ''exp'') example_storage [(''resources'', override_resources)])
     = Inr (projr (parse_obj
         (example_document (RStr ''exp'') example_storage [(''resources'', override_resources)])))
   \<and> at_path (example_document (RStr ''exp'') example_storage [(''resources'', override_resources)])
        [''azure'', ''resources''] = Some override_resources
   \<and> resolve (resources (azure (projr (parse_obj
         (example_document (RStr ''exp'') example_storage [(''resources'', override_resources)])))))
       ''foo'' = Inr \<lparr>ResourceConfig.cluster_name = ''B''\<rparr>
   \<and> resolve (resources (azure (projr (parse_obj
         (example_document (RStr ''exp'') example_storage [(''resources'', override_resources)])))))
       ''bar'' = Inr \<lparr>ResourceConfig.cluster_name = ''A''\<rparr>
   \<and> resolve (resources (azure (projr (parse_obj
         (example_document (RStr ''exp'') example_storage [(''resources'', override_resources)])))))
       ''__default__'' = Inr \<lparr>ResourceConfig.cluster_name = ''A''\<rparr>"
proof -
  let ?doc = "example_document (RStr ''exp'') example_storage [(''resources'', override_resources)]"
  have ok: "\<not> isl (parse_obj ?doc)"
    by (simp add: document_defs config_defs)
  then have h: "parse_obj ?doc = Inr (projr (parse_obj ?doc))"
    by (cases "parse_obj ?doc") simp_all
  have p: "at_path ?doc [''azure'', ''resources''] = Some override_resources"
    by (simp add: example_document_def)
  from resolve_merges_default [OF h] p h show ?thesis
    by auto
qed

lemma getitem_keeps_invariant:
  assumes "default_factory t = Some D"
    and "items t ''__default__'' = None \<or> items t ''__default__'' = Some D"
    and "getitem t k = Inr (r, t')"
  shows "default_factory t' = Some D \<and> items t' ''__default__'' = Some D"
  using assms(3) unfolding getitem_with_factory [OF assms(1,2)]
  using assms(1,2) by (auto split: option.splits)

lemma getitems_with_factory:
  assumes "default_factory t = Some D"
    and "items t ''__default__'' = None \<or> items t ''__default__'' = Some D"
  shows "\<exists>t'. getitems t ks = Inr t' \<and> default_factory t' = Some D
           \<and> (items t' ''__default__'' = None \<or> items t' ''__default__'' = Some D)"
  using assms
proof (induction ks arbitrary: t)
  case Nil
  then show ?case by simp
next
  case (Cons k ks)
  from getitem_with_factory [OF Cons.prems] obtain r t1 where g: "getitem t k = Inr (r, t1)"
    by blast
  from getitem_keeps_invariant [OF Cons.prems g]
  have "default_factory t1 = Some D" "items t1 ''__default__'' = None \<or> items t1 ''__default__'' = Some D"
    by simp_all
  from Cons.IH [OF this] show ?case by (simp add: g)
qed

text \<open>
  C3. In the table of a parsed configuration the lookup of any string key returns a
  record and raises no \<^verbatim>\<open>KeyError\<close>: at once, and after any sequence of earlier lookups
  (which store keys in the table). The empty key and keys that contain \<^verbatim>\<open>__default__\<close>
  are keys like any other.
\<close>

theorem resolve_never_fails:
  assumes "parse_obj doc = Inr cfg"
  shows "(\<exists>r. resolve (resources (azure cfg)) k = Inr r)
    \<and> (\<exists>t'. getitems (resources (azure cfg)) ks = Inr t' \<and> (\<exists>r. resolve t' k = Inr r))"
proof -
  from table_of_parse [OF assms] obtain D where
    f: "default_factory (resources (azure cfg)) = Some D"
    and i: "items (resources (azure cfg)) ''__default__'' = None
            \<or> items (resources (azure cfg)) ''__default__'' = Some D"
    by blast
  from getitems_with_factory [OF f i] obtain t' where
    "getitems (resources (azure cfg)) ks = Inr t'" "default_factory t' = Some D"
    "items t' ''__default__'' = None \<or> items t' ''__default__'' = Some D"
    by blast
  then show ?thesis
    using resolve_with_factory [OF f i] resolve_with_factory [of t' D] by simp
qed

theorem resolve_never_fails_witness:
  "parse_obj CONFIG_TEMPLATE = Inr (projr (parse_obj CONFIG_TEMPLATE))
   \<and> \<not> isl (resolve (resources (azure (projr (parse_obj CONFIG_TEMPLATE)))) '''')
   \<and> \<not> isl (resolve (resources (azure (projr (parse_obj CONFIG_TEMPLATE)))) ''my__default__key'')
   \<and> \<not> isl (getitems (resources (azure (projr (parse_obj CONFIG_TEMPLATE)))) [''chunky'', ''''])
   \<and> \<not> isl (resolve (projr (getitems (resources (azure (projr (parse_obj CONFIG_TEMPLATE))))
         [''chunky'', ''''])) ''my__default__key'')"
proof -
  have ok: "\<not> isl (parse_obj CONFIG_TEMPLATE)"
    by (simp add: document_defs config_defs)
  then have h: "parse_obj CONFIG_TEMPLATE = Inr (projr (parse_obj CONFIG_TEMPLATE))"
    by (cases "parse_obj CONFIG_TEMPLATE") simp_all
  from resolve_never_fails [OF h, of "''''" "[]"]
    resolve_never_fails [OF h, of "''my__default__key''" "[''chunky'', '''']"] h
  show ?thesis by auto
qed

text \<open>
  C5. In the table of a parsed configuration two successive lookups of the same key
  return the same record; the second one finds the table as the first left it and
  leaves it so.
\<close>

theorem resolve_twice_equal:
  assumes "parse_obj doc = Inr cfg"
  shows "\<exists>r t1. getitem (resources (azure cfg)) k = Inr (r, t1) \<and> getitem t1 k = Inr (r, t1)"
proof -
  let ?t = "resources (azure cfg)"
  from table_of_parse [OF assms] obtain D where
    f: "default_factory ?t = Some D"
    and i: "items ?t ''__default__'' = None \<or> items ?t ''__default__'' = Some D"
    by blast
  from getitem_with_factory [OF f i] obtain r t1 where g: "getitem ?t k = Inr (r, t1)"
    by blast
  from getitem_keeps_invariant [OF f i g]
  have f1: "default_factory t1 = Some D" and i1: "items t1 ''__default__'' = None \<or> items t1 ''__default__'' = Some D"
    by simp_all
  have "getitem t1 k = Inr (r, t1)"
    using g unfolding getitem_with_factory [OF f1 i1] getitem_with_factory [OF f i]
    by (auto split: option.splits)
  with g show ?thesis by blast
qed

theorem resolve_twice_equal_witness:
  "parse_obj CONFIG_TEMPLATE = Inr (projr (parse_obj CONFIG_TEMPLATE))
   \<and> fst (projr (getitem (resources (azure (projr (parse_obj CONFIG_TEMPLATE)))) ''other''))
       = \<lparr>ResourceConfig.cluster_name = ''{cluster_name}''\<rparr>
   \<and> fst (projr (getitem (snd (projr (getitem (resources (azure (projr (parse_obj CONFIG_TEMPLATE))))
          ''other''))) ''other''))
       = \<lparr>ResourceConfig.cluster_name = ''{cluster_name}''\<rparr>"
proof -
  have ok: "\<not> isl (parse_obj CONFIG_TEMPLATE)"
    by (simp add: document_defs config_defs)
  then have h: "parse_obj CONFIG_TEMPLATE = Inr (projr (parse_obj CONFIG_TEMPLATE))"
    by (cases "parse_obj CONFIG_TEMPLATE") simp_all
  have v: "fst (projr (getitem (resources (azure (projr (parse_obj CONFIG_TEMPLATE)))) ''other''))
       = \<lparr>ResourceConfig.cluster_name = ''{cluster_name}''\<rparr>"
    by (simp add: document_defs config_defs lookup_defs)
  from resolve_twice_equal [OF h, of "''other''"] h v show ?thesis
    by auto
qed

section \<open>What a lookup writes\<close>

text \<open>
  C6 claims that after a lookup the mapping of the table is the same as before. It is
  not: in the table of the template the key \<^verbatim>\<open>bar\<close> is not stored, and after the lookup
  of \<^verbatim>\<open>bar\<close> it is, since \<^verbatim>\<open>defaultdict.__missing__\<close> stores the value it returns.
\<close>

theorem getitem_changes_table_counterexample:
  "\<not> isl (parse_obj CONFIG_TEMPLATE)
   \<and> \<not> isl (getitem (resources (azure (projr (parse_obj CONFIG_TEMPLATE)))) ''bar'')
   \<and> items (resources (azure (projr (parse_obj CONFIG_TEMPLATE)))) ''bar'' = None
   \<and> items (snd (projr (getitem (resources (azure (projr (parse_obj CONFIG_TEMPLATE)))) ''bar'')))
         ''bar'' = Some \<lparr>ResourceConfig.cluster_name = ''{cluster_name}''\<rparr>
   \<and> items (snd (projr (getitem (resources (azure (projr (parse_obj CONFIG_TEMPLATE)))) ''bar'')))
       \<noteq> items (resources (azure (projr (parse_obj CONFIG_TEMPLATE))))"
proof -
  let ?t = "resources (azure (projr (parse_obj CONFIG_TEMPLATE)))"
  have a: "\<not> isl (parse_obj CONFIG_TEMPLATE)"
    by (simp add: document_defs config_defs)
  have b: "\<not> isl (getitem ?t ''bar'')"
    by (simp add: document_defs config_defs lookup_defs)
  have c: "items ?t ''bar'' = None"
    by (simp add: document_defs config_defs)
  have d: "items (snd (projr (getitem ?t ''bar''))) ''bar''
             = Some \<lparr>ResourceConfig.cluster_name = ''{cluster_name}''\<rparr>"
    by (simp add: document_defs config_defs lookup_defs)
  from c d have "items (snd (projr (getitem ?t ''bar''))) \<noteq> items ?t"
    by (metis option.distinct(1))
  with a b c d show ?thesis by blast
qed

text \<open>
  C6, amended. A lookup in the table of a parsed configuration changes no stored record
  and not the default: every entry stored before is stored unchanged after it. What it
  writes is the key looked up and \<^verbatim>\<open>__default__\<close>, each stored with the default record
  where it was absent, so the table is the same when both were stored already. Every
  key resolves after the lookup to what it resolved to before.
\<close>

theorem getitem_keeps_entries:
  assumes "parse_obj doc = Inr cfg"
  shows "\<exists>r t' D. getitem (resources (azure cfg)) k = Inr (r, t')
    \<and> default_factory (resources (azure cfg)) = Some D
    \<and> default_factory t' = Some D
    \<and> items t' = (items (resources (azure cfg)))
         (''__default__'' \<mapsto> D,
          k \<mapsto> (case items (resources (azure cfg)) k of None \<Rightarrow> D | Some E \<Rightarrow> E))
    \<and> (\<forall>k' v. items (resources (azure cfg)) k' = Some v \<longrightarrow> items t' k' = Some v)
    \<and> (''__default__'' \<in> dom (items (resources (azure cfg)))
         \<and> k \<in> dom (items (resources (azure cfg))) \<longrightarrow> t' = resources (azure cfg))
    \<and> (\<forall>k'. resolve t' k' = resolve (resources (azure cfg)) k')"
proof -
  let ?t = "resources (azure cfg)"
  let ?this = "case items ?t k of None \<Rightarrow> D | Some E \<Rightarrow> E"
  from table_of_parse [OF assms] obtain D where
    f: "default_factory ?t = Some D"
    and i: "items ?t ''__default__'' = None \<or> items ?t ''__default__'' = Some D"
    by blast
  define t' where "t' = ?t\<lparr>items := (items ?t)(''__default__'' \<mapsto> D,
      k \<mapsto> (case items ?t k of None \<Rightarrow> D | Some E \<Rightarrow> E))\<rparr>"
  have g: "getitem ?t k = Inr (D\<lparr>ResourceConfig.cluster_name :=
      ResourceConfig.cluster_name (case items ?t k of None \<Rightarrow> D | Some E \<Rightarrow> E)\<rparr>, t')"
    unfolding t'_def by (rule getitem_with_factory [OF f i])
  have f': "default_factory t' = Some D"
    by (simp add: t'_def f)
  have it: "items t' = (items ?t)(''__default__'' \<mapsto> D,
      k \<mapsto> (case items ?t k of None \<Rightarrow> D | Some E \<Rightarrow> E))"
    by (simp add: t'_def)
  have i': "items t' ''__default__'' = None \<or> items t' ''__default__'' = Some D"
    using i by (auto simp: it split: option.splits)
  have keep: "items t' k' = Some v" if "items ?t k' = Some v" for k' v
    using that i by (auto simp: it)
  have same: "t' = ?t" if "''__default__'' \<in> dom (items ?t)" "k \<in> dom (items ?t)"
  proof -
    from that i have "(items ?t)(''__default__'' \<mapsto> D,
      k \<mapsto> (case items ?t k of None \<Rightarrow> D | Some E \<Rightarrow> E)) = items ?t"
      by (auto simp: fun_eq_iff)
    then show ?thesis by (simp add: t'_def)
  qed
  have res: "resolve t' k' = resolve ?t k'" for k'
    unfolding resolve_with_factory [OF f i] resolve_with_factory [OF f' i']
    using i by (auto simp: it split: option.splits)
  from g f f' it keep same res show ?thesis
    by blast
qed

theorem getitem_keeps_entries_witness:
  "parse_obj CONFIG_TEMPLATE = Inr (projr (parse_obj CONFIG_TEMPLATE))
   \<and> items (resources (azure (projr (parse_obj CONFIG_TEMPLATE)))) ''chunky''
       = Some \<lparr>ResourceConfig.cluster_name = ''chunky-cpu-cluster''\<rparr>
   \<and> items (snd (projr (getitem (resources (azure (projr (parse_obj CONFIG_TEMPLATE)))) ''bar'')))
         ''chunky'' = Some \<lparr>ResourceConfig.cluster_name = ''chunky-cpu-cluster''\<rparr>
   \<and> snd (projr (getitem (resources (azure (projr (parse_obj CONFIG_TEMPLATE)))) ''chunky''))
       = resources (azure (projr (parse_obj CONFIG_TEMPLATE)))"
proof -
  let ?t = "resources (azure (projr (parse_obj CONFIG_TEMPLATE)))"
  have ok: "\<not> isl (parse_obj CONFIG_TEMPLATE)"
    by (simp add: document_defs config_defs)
  then have h: "parse_obj CONFIG_TEMPLATE = Inr (projr (parse_obj CONFIG_TEMPLATE))"
    by (cases "parse_obj CONFIG_TEMPLATE") simp_all
  have c: "items ?t ''chunky'' = Some \<lparr>ResourceConfig.cluster_name = ''chunky-cpu-cluster''\<rparr>"
    by (simp add: document_defs config_defs)
  have d: "''__default__'' \<in> dom (items ?t)" "''chunky'' \<in> dom (items ?t)"
    by (simp_all add: document_defs config_defs)
  from getitem_keeps_entries [OF h, of "''bar''"] c
  have 1: "items (snd (projr (getitem ?t ''bar''))) ''chunky''
      = Some \<lparr>ResourceConfig.cluster_name = ''chunky-cpu-cluster''\<rparr>"
    by auto
  from getitem_keeps_entries [OF h, of "''chunky''"] d
  have 2: "snd (projr (getitem ?t ''chunky'')) = ?t"
    by auto
  from h c 1 2 show ?thesis by blast
qed

section \<open>The synthesized default\<close>

lemma validate_mapping_like_absent:
  assumes "validate_mapping_like rs result errors = Inr m" and "k \<notin> fst ` set rs"
  shows "m k = result k"
  using assms
proof (induction rs arbitrary: result errors)
  case Nil
  then show ?case by (simp split: if_splits)
next
  case (Cons kv rest)
  obtain k' v where kv: "kv = (k', v)" by (cases kv)
  from Cons.prems(2) have k: "k \<noteq> k'" "k \<notin> fst ` set rest"
    by (auto simp: kv)
  show ?case
  proof (cases "validate_singleton k' v")
    case (Inl es)
    with Cons.prems(1) have "validate_mapping_like rest result (errors @ es) = Inr m"
      by (simp add: kv)
    from Cons.IH [OF this k(2)] show ?thesis .
  next
    case (Inr r)
    with Cons.prems(1) have "validate_mapping_like rest (result(k' \<mapsto> r)) errors = Inr m"
      by (simp add: kv)
    from Cons.IH [OF this k(2)] k(1) show ?thesis by simp
  qed
qed

lemma resources_field_absent:
  assumes "resources_field az = Inr t" and "map_of az ''resources'' = Some r"
    and "dict_validator r = Some rs" and "k \<notin> fst ` set rs"
  shows "items t k = None"
proof -
  from assms(3) have "r \<noteq> RNull" by auto
  with assms(1-3) obtain m where m: "validate_mapping_like rs Map.empty [] = Inr m"
    and t: "t = validate_resources (Some m)"
    by (auto simp: resources_field_def split: raw.splits sum.splits)
  from validate_mapping_like_absent [OF m assms(4)] show ?thesis
    by (simp add: t validate_resources_def create_default_dict_with_def Let_def)
qed

text \<open>
  C2 claims that without an entry \<^verbatim>\<open>__default__\<close> the default record takes the cluster
  name of the root of the document. It does not: for the root cluster \<^verbatim>\<open>base-cluster\<close>
  and resources with the entry \<^verbatim>\<open>chunky\<close> only, the default record and the record of the
  unknown key \<^verbatim>\<open>bar\<close> have the cluster name \<^verbatim>\<open>{cluster_name}\<close>, the constant that the
  validator passes as the default.
\<close>

theorem default_not_root_cluster_counterexample:
  "\<not> isl (parse_obj (example_document (RStr ''exp'') example_storage
             [(''resources'', chunky_resources)]))
   \<and> cluster_name (azure (projr (parse_obj (example_document (RStr ''exp'') example_storage
             [(''resources'', chunky_resources)])))) = ''base-cluster''
   \<and> default_factory (resources (azure (projr (parse_obj (example_document (RStr ''exp'')
             example_storage [(''resources'', chunky_resources)])))))
       = Some \<lparr>ResourceConfig.cluster_name = ''{cluster_name}''\<rparr>
   \<and> resolve (resources (azure (projr (parse_obj (example_document (RStr ''exp'')
             example_storage [(''resources'', chunky_resources)]))))) ''bar''
       = Inr \<lparr>ResourceConfig.cluster_name = ''{cluster_name}''\<rparr>
   \<and> ResourceConfig.cluster_name (projr (resolve (resources (azure (projr (parse_obj
             (example_document (RStr ''exp'') example_storage
                [(''resources'', chunky_resources)]))))) ''bar''))
       \<noteq> cluster_name (azure (projr (parse_obj (example_document (RStr ''exp'') example_storage
             [(''resources'', chunky_resources)]))))"
  by (simp add: document_defs config_defs lookup_defs)

text \<open>
  C2, amended. When the resources section of an accepted document is a mapping without
  the entry \<^verbatim>\<open>__default__\<close>, the default record of the table has the cluster name
  \<^verbatim>\<open>{cluster_name}\<close>, whatever the cluster name at the root, and every key absent from the
  section resolves to that record.
\<close>

theorem default_is_placeholder:
  assumes "parse_obj doc = Inr cfg"
    and "at_path doc [''azure'', ''resources''] = Some r"
    and "dict_validator r = Some rs"
    and "''__default__'' \<notin> fst ` set rs"
  shows "default_factory (resources (azure cfg))
           = Some \<lparr>ResourceConfig.cluster_name = ''{cluster_name}''\<rparr>
    \<and> (\<forall>k. k \<notin> fst ` set rs \<longrightarrow>
          resolve (resources (azure cfg)) k
            = Inr \<lparr>ResourceConfig.cluster_name = ''{cluster_name}''\<rparr>)"
proof -
  let ?t = "resources (azure cfg)"
  from at_path_resources [OF assms(1,2)] obtain az where
    az: "map_of az ''resources'' = Some r" "resources_field az = Inr ?t"
    by blast
  have none: "items ?t k = None" if "k \<notin> fst ` set rs" for k
    by (rule resources_field_absent [OF az(2) az(1) assms(3) that])
  from table_of_parse [OF assms(1)] none [OF assms(4)]
  have f: "default_factory ?t = Some \<lparr>ResourceConfig.cluster_name = ''{cluster_name}''\<rparr>"
    by auto
  have "resolve ?t k = Inr \<lparr>ResourceConfig.cluster_name = ''{cluster_name}''\<rparr>"
    if "k \<notin> fst ` set rs" for k
    using resolve_with_factory [OF f, of k] none [OF assms(4)] none [OF that] by simp
  with f show ?thesis by blast
qed

theorem default_is_placeholder_witness:
  "parse_obj (example_document (RStr ''exp'') example_storage [(''resources'', chunky_resources)])
     = Inr (projr (parse_obj (example_document (RStr ''exp'') example_storage
         [(''resources'', chunky_resources)])))
   \<and> at_path (example_document (RStr ''exp'') example_storage [(''resources'', chunky_resources)])
        [''azure'', ''resources''] = Some chunky_resources
   \<and> dict_validator chunky_resources
        = Some [(''chunky'', RDict [(''cluster_name'', RStr ''chunky-cpu-cluster'')])]
   \<and> ''__default__'' \<notin> fst ` set [(''chunky'', RDict [(''cluster_name'', RStr ''chunky-cpu-cluster'')])]
   \<and> ''bar'' \<notin> fst ` set [(''chunky'', RDict [(''cluster_name'', RStr ''chunky-cpu-cluster'')])]
   \<and> resolve (resources (azure (projr (parse_obj (example_document (RStr ''exp'')
             example_storage [(''resources'', chunky_resources)]))))) ''bar''
       = Inr \<lparr>ResourceConfig.cluster_name = ''{cluster_name}''\<rparr>"
proof -
  let ?doc = "example_document (RStr ''exp'') example_storage [(''resources'', chunky_resources)]"
  let ?rs = "[(''chunky'', RDict [(''cluster_name'', RStr ''chunky-cpu-cluster'')])]"
  have ok: "\<not> isl (parse_obj ?doc)"
    by (simp add: document_defs config_defs)
  then have h: "parse_obj ?doc = Inr (projr (parse_obj ?doc))"
    by (cases "parse_obj ?doc") simp_all
  have p: "at_path ?doc [''azure'', ''resources''] = Some chunky_resources"
    by (simp add: example_document_def)
  have d: "dict_validator chunky_resources = Some ?rs"
    by (simp add: chunky_resources_def)
  have n: "''__default__'' \<notin> fst ` set ?rs" "''bar'' \<notin> fst ` set ?rs"
    by simp_all
  from default_is_placeholder [OF h p d n(1)] n(2)
  have "resolve (resources (azure (projr (parse_obj ?doc)))) ''bar''
       = Inr \<lparr>ResourceConfig.cluster_name = ''{cluster_name}''\<rparr>"
    by blast
  with h p d n show ?thesis by blast
qed

lemma model_field_Inr_intro:
  assumes "map_of d name = Some v" and "dict_validator v = Some d'" and "validate d' = Inr m"
  shows "model_field validate d name = Inr m"
  using assms by (cases v) (simp_all add: model_field_def split: if_splits)

text \<open>
  C9. A document whose \<^verbatim>\<open>azure\<close> section has no key \<^verbatim>\<open>resources\<close>, or has it with the
  value null, and whose other fields are valid, is accepted; every key resolves in its
  table to the synthesized default, the record with the cluster name
  \<^verbatim>\<open>{cluster_name}\<close>.
\<close>

theorem absent_resources_tolerated:
  assumes "dict_validator doc = Some root"
    and "map_of root ''azure'' = Some a"
    and "dict_validator a = Some az"
    and "map_of az ''resources'' = None \<or> map_of az ''resources'' = Some RNull"
    and "str_field az ''experiment_name'' = Inr e"
    and "str_field az ''workspace_name'' = Inr w"
    and "str_field az ''resource_group'' = Inr g"
    and "str_field az ''cluster_name'' = Inr c"
    and "model_field validate_AzureTempStorageConfig az ''temporary_storage'' = Inr ts"
    and "model_field validate_DockerConfig root ''docker'' = Inr dk"
  shows "\<exists>cfg. parse_obj doc = Inr cfg
    \<and> (\<forall>k. resolve (resources (azure cfg)) k
              = Inr \<lparr>ResourceConfig.cluster_name = ''{cluster_name}''\<rparr>)"
proof -
  let ?t = "validate_resources None"
  let ?ac = "\<lparr>experiment_name = e, workspace_name = w, resource_group = g, cluster_name = c,
           temporary_storage = ts, resources = ?t\<rparr>"
  from assms(4) have r: "resources_field az = Inr ?t"
    by (auto simp: resources_field_def)
  have az: "validate_AzureMLConfig az = Inr ?ac"
    by (simp add: validate_AzureMLConfig_def assms(5-9) r)
  have "model_field validate_AzureMLConfig root ''azure'' = Inr ?ac"
    by (rule model_field_Inr_intro [where validate = validate_AzureMLConfig, OF assms(2,3) az])
  then have p: "parse_obj doc = Inr \<lparr>azure = ?ac, docker = dk\<rparr>"
    by (simp add: parse_obj_def assms(1,10) validate_KedroAzureMLConfig_def)
  have "resolve ?t k = Inr \<lparr>ResourceConfig.cluster_name = ''{cluster_name}''\<rparr>" for k
    by (simp add: validate_resources_def create_default_dict_with_def lookup_defs)
  with p show ?thesis by simp
qed


theorem absent_resources_tolerated_witness:
  "\<not> isl (parse_obj (example_document (RStr ''exp'') example_storage []))
   \<and> resolve (resources (azure (projr (parse_obj
         (example_document (RStr ''exp'') example_storage [])))))
       ''chunky'' = Inr \<lparr>ResourceConfig.cluster_name = ''{cluster_name}''\<rparr>
   \<and> \<not> isl (parse_obj (example_document (RStr ''exp'') example_storage [(''resources'', RNull)]))
   \<and> resolve (resources (azure (projr (parse_obj
         (example_document (RStr ''exp'') example_storage [(''resources'', RNull)])))))
       ''chunky'' = Inr \<lparr>ResourceConfig.cluster_name = ''{cluster_name}''\<rparr>"
proof -
  let ?ts = "\<lparr>account_name = ''acc'', container = ''box''\<rparr>"
  let ?dk = "\<lparr>image = ''img''\<rparr>"
  have absent: "\<not> isl (parse_obj (example_document (RStr ''exp'') example_storage more))
      \<and> resolve (resources (azure (projr (parse_obj
            (example_document (RStr ''exp'') example_storage more)))))
          ''chunky'' = Inr \<lparr>ResourceConfig.cluster_name = ''{cluster_name}''\<rparr>"
    if more: "more = [] \<or> more = [(''resources'', RNull)]" for more
  proof -
    let ?az = "[(''cluster_name'', RStr ''base-cluster''), (''experiment_name'', RStr ''exp''),
        (''resource_group'', RStr ''rg''), (''workspace_name'', RStr ''ws''),
        (''temporary_storage'', RDict example_storage)] @ more"
    let ?root = "[(''azure'', RDict ?az), (''docker'', RDict [(''image'', RStr ''img'')])]"
    have 1: "dict_validator (example_document (RStr ''exp'') example_storage more) = Some ?root"
      by (simp add: example_document_def)
    have 2: "map_of ?root ''azure'' = Some (RDict ?az)" by simp
    have 3: "dict_validator (RDict ?az) = Some ?az" by simp
    have 4: "map_of ?az ''resources'' = None \<or> map_of ?az ''resources'' = Some RNull"
      using more by auto
    have 5: "str_field ?az ''experiment_name'' = Inr ''exp''"
      and 6: "str_field ?az ''workspace_name'' = Inr ''ws''"
      and 7: "str_field ?az ''resource_group'' = Inr ''rg''"
      and 8: "str_field ?az ''cluster_name'' = Inr ''base-cluster''"
      by (simp_all add: str_field_def)
    have 9: "model_field validate_AzureTempStorageConfig ?az ''temporary_storage'' = Inr ?ts"
      by (simp add: model_field_def validate_AzureTempStorageConfig_def str_field_def
          example_storage_def)
    have 10: "model_field validate_DockerConfig ?root ''docker'' = Inr ?dk"
      by (simp add: model_field_def validate_DockerConfig_def str_field_def)
    from absent_resources_tolerated [OF 1 2 3 4 5 6 7 8 9 10] show ?thesis
      by auto
  qed
  from absent [of "[]"] absent [of "[(''resources'', RNull)]"] show ?thesis
    by simp
qed

section \<open>Validation failures\<close>

lemma Inl_errors_of: "isl r \<Longrightarrow> r = Inl (errors_of r)"
  by (cases r) (simp_all add: errors_of_def)

lemma errors_of_simps: "errors_of (Inr x) = []" "errors_of (Inl es) = es"
  by (simp_all add: errors_of_def)

lemma str_field_refused:
  assumes "case map_of d name of None \<Rightarrow> True | Some v \<Rightarrow> isl (str_validator v)"
  shows "str_field d name =
    Inl [([name], case map_of d name of None \<Rightarrow> Missing | Some RNull \<Rightarrow> NoneNotAllowed
                   | Some (RInt i) \<Rightarrow> IntTooLong | Some v \<Rightarrow> StrError)]"
  using assms by (auto simp: str_field_def split: option.splits raw.splits if_splits)

lemma model_field_errors:
  assumes "map_of d name = Some v" and "dict_validator v = Some d'"
  shows "isl (model_field validate d name) = isl (validate d')"
    and "errors_of (model_field validate d name) = below name (errors_of (validate d'))"
  using assms
  by (cases v; cases "validate d'";
      simp add: model_field_def errors_of_def below_def split: if_splits)+

lemma isl_validate_AzureMLConfig:
  "isl (validate_AzureMLConfig d) \<longleftrightarrow>
     isl (str_field d ''experiment_name'') \<or> isl (str_field d ''workspace_name'')
     \<or> isl (str_field d ''resource_group'') \<or> isl (str_field d ''cluster_name'')
     \<or> isl (model_field validate_AzureTempStorageConfig d ''temporary_storage'')
     \<or> isl (resources_field d)"
  by (simp add: validate_AzureMLConfig_def isl_collect)

lemma errors_of_validate_AzureMLConfig:
  "errors_of (validate_AzureMLConfig d) =
     errors_of (str_field d ''experiment_name'') @ errors_of (str_field d ''workspace_name'')
     @ errors_of (str_field d ''resource_group'') @ errors_of (str_field d ''cluster_name'')
     @ errors_of (model_field validate_AzureTempStorageConfig d ''temporary_storage'')
     @ errors_of (resources_field d)"
  by (simp add: validate_AzureMLConfig_def errors_of_collect errors_of_simps)

lemma isl_validate_AzureTempStorageConfig:
  "isl (validate_AzureTempStorageConfig d) \<longleftrightarrow>
     isl (str_field d ''account_name'') \<or> isl (str_field d ''container'')"
  by (simp add: validate_AzureTempStorageConfig_def isl_collect)

lemma errors_of_validate_AzureTempStorageConfig:
  "errors_of (validate_AzureTempStorageConfig d) =
     errors_of (str_field d ''account_name'') @ errors_of (str_field d ''container'')"
  by (simp add: validate_AzureTempStorageConfig_def errors_of_collect errors_of_simps)

lemma isl_validate_DockerConfig:
  "isl (validate_DockerConfig d) \<longleftrightarrow> isl (str_field d ''image'')"
  by (simp add: validate_DockerConfig_def isl_collect)

lemma errors_of_validate_DockerConfig:
  "errors_of (validate_DockerConfig d) = errors_of (str_field d ''image'')"
  by (simp add: validate_DockerConfig_def errors_of_collect errors_of_simps)

lemma isl_validate_KedroAzureMLConfig:
  "isl (validate_KedroAzureMLConfig d) \<longleftrightarrow>
     isl (model_field validate_AzureMLConfig d ''azure'')
     \<or> isl (model_field validate_DockerConfig d ''docker'')"
  by (simp add: validate_KedroAzureMLConfig_def isl_collect)

lemma errors_of_validate_KedroAzureMLConfig:
  "errors_of (validate_KedroAzureMLConfig d) =
     errors_of (model_field validate_AzureMLConfig d ''azure'')
     @ errors_of (model_field validate_DockerConfig d ''docker'')"
  by (simp add: validate_KedroAzureMLConfig_def errors_of_collect errors_of_simps)

lemma mem_below: "(l, e) \<in> set es \<Longrightarrow> (name # l, e) \<in> set (below name es)"
  by (force simp: below_def)

text \<open>A refused field of the \<^verbatim>\<open>azure\<close> section, of its storage, of the \<^verbatim>\<open>docker\<close> section.\<close>

lemma azure_field_refused:
  assumes "at_path doc [''azure''] = Some sec" and "dict_validator sec = Some d"
    and "name \<in> {''experiment_name'', ''workspace_name'', ''resource_group'', ''cluster_name''}"
    and "str_field d name = Inl [([name], e)]"
  shows "isl (parse_obj doc) \<and> ([''azure'', name], e) \<in> set (errors_of (parse_obj doc))"
proof -
  from assms(1) obtain root where root: "dict_validator doc = Some root"
    and a: "map_of root ''azure'' = Some sec"
    by (auto split: option.splits)
  note m = model_field_errors [OF a assms(2), of validate_AzureMLConfig]
  from assms(3,4) have "isl (validate_AzureMLConfig d)"
    by (auto simp: isl_validate_AzureMLConfig)
  moreover from assms(3,4) have "([name], e) \<in> set (errors_of (validate_AzureMLConfig d))"
    by (auto simp: errors_of_validate_AzureMLConfig errors_of_simps)
  ultimately show ?thesis
    using mem_below [of "[name]" e _ "''azure''"]
    by (simp add: parse_obj_def root isl_validate_KedroAzureMLConfig
        errors_of_validate_KedroAzureMLConfig m)
qed

lemma storage_field_refused:
  assumes "at_path doc [''azure'', ''temporary_storage''] = Some sec"
    and "dict_validator sec = Some d"
    and "name \<in> {''account_name'', ''container''}"
    and "str_field d name = Inl [([name], e)]"
  shows "isl (parse_obj doc)
    \<and> ([''azure'', ''temporary_storage'', name], e) \<in> set (errors_of (parse_obj doc))"
proof -
  from assms(1) obtain root a az where root: "dict_validator doc = Some root"
    and a: "map_of root ''azure'' = Some a" and az: "dict_validator a = Some az"
    and s: "map_of az ''temporary_storage'' = Some sec"
    by (auto split: option.splits)
  note m = model_field_errors [OF a az, of validate_AzureMLConfig]
  note n = model_field_errors [OF s assms(2), of validate_AzureTempStorageConfig]
  from assms(3,4) have "isl (validate_AzureTempStorageConfig d)"
    by (auto simp: isl_validate_AzureTempStorageConfig)
  moreover from assms(3,4)
  have "([name], e) \<in> set (errors_of (validate_AzureTempStorageConfig d))"
    by (auto simp: errors_of_validate_AzureTempStorageConfig errors_of_simps)
  ultimately have "isl (validate_AzureMLConfig az)"
    and "([''temporary_storage'', name], e) \<in> set (errors_of (validate_AzureMLConfig az))"
    using mem_below [of "[name]" e _ "''temporary_storage''"]
    by (simp_all add: isl_validate_AzureMLConfig errors_of_validate_AzureMLConfig n)
  then show ?thesis
    using mem_below [of "[''temporary_storage'', name]" e _ "''azure''"]
    by (simp add: parse_obj_def root isl_validate_KedroAzureMLConfig
        errors_of_validate_KedroAzureMLConfig m)
qed

lemma docker_field_refused:
  assumes "at_path doc [''docker''] = Some sec" and "dict_validator sec = Some d"
    and "str_field d ''image'' = Inl [([''image''], e)]"
  shows "isl (parse_obj doc) \<and> ([''docker'', ''image''], e) \<in> set (errors_of (parse_obj doc))"
proof -
  from assms(1) obtain root where root: "dict_validator doc = Some root"
    and a: "map_of root ''docker'' = Some sec"
    by (auto split: option.splits)
  note m = model_field_errors [OF a assms(2), of validate_DockerConfig]
  from assms(3) have "isl (validate_DockerConfig d)"
    by (auto simp: isl_validate_DockerConfig)
  moreover from assms(3) have "([''image''], e) \<in> set (errors_of (validate_DockerConfig d))"
    by (auto simp: errors_of_validate_DockerConfig errors_of_simps)
  ultimately show ?thesis
    using mem_below [of "[''image'']" e _ "''docker''"]
    by (simp add: parse_obj_def root isl_validate_KedroAzureMLConfig
        errors_of_validate_KedroAzureMLConfig m)
qed

lemma required_str_fields_disj:
  assumes "p \<in> set required_str_fields"
  shows "p = [''azure'', ''experiment_name''] \<or> p = [''azure'', ''workspace_name'']
      \<or> p = [''azure'', ''resource_group''] \<or> p = [''azure'', ''cluster_name'']
      \<or> p = [''azure'', ''temporary_storage'', ''account_name'']
      \<or> p = [''azure'', ''temporary_storage'', ''container'']
      \<or> p = [''docker'', ''image'']"
  using assms unfolding required_str_fields_def
  by (simp only: set_simps insert_iff empty_iff HOL.simp_thms)

lemma refused_field_error:
  assumes "p \<in> set required_str_fields"
    and "at_path doc (butlast p) = Some sec"
    and "dict_validator sec = Some d"
    and "case map_of d (last p) of None \<Rightarrow> True | Some v \<Rightarrow> isl (str_validator v)"
  shows "\<exists>errors. parse_obj doc = Inl errors
    \<and> (p, case map_of d (last p) of None \<Rightarrow> Missing | Some RNull \<Rightarrow> NoneNotAllowed
              | Some (RInt i) \<Rightarrow> IntTooLong | Some v \<Rightarrow> StrError) \<in> set errors"
proof -
  define e where "e = (case map_of d (last p) of None \<Rightarrow> Missing | Some RNull \<Rightarrow> NoneNotAllowed
              | Some (RInt i) \<Rightarrow> IntTooLong | Some v \<Rightarrow> StrError)"
  have f: "str_field d (last p) = Inl [([last p], e)]"
    unfolding e_def by (rule str_field_refused [OF assms(4)])
  have azure: "isl (parse_obj doc) \<and> (p, e) \<in> set (errors_of (parse_obj doc))"
    if p: "p = [''azure'', name]"
      and n: "name \<in> {''experiment_name'', ''workspace_name'', ''resource_group'', ''cluster_name''}"
    for name
  proof -
    from p assms(2) f have "at_path doc [''azure''] = Some sec"
      "str_field d name = Inl [([name], e)]"
      by simp_all
    from azure_field_refused [OF this(1) assms(3) n this(2)] show ?thesis
      by (simp only: p)
  qed
  have storage: "isl (parse_obj doc) \<and> (p, e) \<in> set (errors_of (parse_obj doc))"
    if p: "p = [''azure'', ''temporary_storage'', name]"
      and n: "name \<in> {''account_name'', ''container''}"
    for name
  proof -
    from p assms(2) f have "at_path doc [''azure'', ''temporary_storage''] = Some sec"
      "str_field d name = Inl [([name], e)]"
      by simp_all
    from storage_field_refused [OF this(1) assms(3) n this(2)] show ?thesis
      by (simp only: p)
  qed
  have docker: "isl (parse_obj doc) \<and> (p, e) \<in> set (errors_of (parse_obj doc))"
    if p: "p = [''docker'', ''image'']"
  proof -
    from p assms(2) f have "at_path doc [''docker''] = Some sec"
      "str_field d ''image'' = Inl [([''image''], e)]"
      by simp_all
    from docker_field_refused [OF this(1) assms(3) this(2)] show ?thesis
      by (simp only: p)
  qed
  from required_str_fields_disj [OF assms(1)]
  have "isl (parse_obj doc) \<and> (p, e) \<in> set (errors_of (parse_obj doc))"
  proof (elim disjE)
    assume "p = [''azure'', ''experiment_name'']"
    then show ?thesis by (rule azure) simp
  next
    assume "p = [''azure'', ''workspace_name'']"
    then show ?thesis by (rule azure) simp
  next
    assume "p = [''azure'', ''resource_group'']"
    then show ?thesis by (rule azure) simp
  next
    assume "p = [''azure'', ''cluster_name'']"
    then show ?thesis by (rule azure) simp
  next
    assume "p = [''azure'', ''temporary_storage'', ''account_name'']"
    then show ?thesis by (rule storage) simp
  next
    assume "p = [''azure'', ''temporary_storage'', ''container'']"
    then show ?thesis by (rule storage) simp
  next
    assume "p = [''docker'', ''image'']"
    then show ?thesis by (rule docker)
  qed
  then have "parse_obj doc = Inl (errors_of (parse_obj doc))
      \<and> (p, e) \<in> set (errors_of (parse_obj doc))"
    using Inl_errors_of [of "parse_obj doc"] by simp
  then show ?thesis
    unfolding e_def by (rule exI)
qed


lemma parse_obj_str_fields:
  assumes "parse_obj doc = Inr cfg"
  shows "str_at doc [''azure'', ''experiment_name''] = Some (experiment_name (azure cfg))
    \<and> str_at doc [''azure'', ''workspace_name''] = Some (workspace_name (azure cfg))
    \<and> str_at doc [''azure'', ''resource_group''] = Some (resource_group (azure cfg))
    \<and> str_at doc [''azure'', ''cluster_name''] = Some (cluster_name (azure cfg))
    \<and> str_at doc [''azure'', ''temporary_storage'', ''account_name'']
        = Some (account_name (temporary_storage (azure cfg)))
    \<and> str_at doc [''azure'', ''temporary_storage'', ''container'']
        = Some (container (temporary_storage (azure cfg)))
    \<and> str_at doc [''docker'', ''image''] = Some (image (docker cfg))"
proof -
  from parse_obj_Inr [OF assms] obtain root a az where
    root: "dict_validator doc = Some root" and a: "map_of root ''azure'' = Some a"
    and az: "dict_validator a = Some az" and v: "validate_AzureMLConfig az = Inr (azure cfg)"
    and dk: "model_field validate_DockerConfig root ''docker'' = Inr (docker cfg)"
    by blast
  note s = validate_AzureMLConfig_Inr [OF v]
  have azure: "str_at doc [''azure'', name] = Some x" if "str_field az name = Inr x" for name x
    using str_field_Inr [OF that] by (auto simp: str_at_def root a az)
  from model_field_Inr [OF s(5)] obtain ts d where
    ts: "map_of az ''temporary_storage'' = Some ts" "dict_validator ts = Some d"
    and vt: "validate_AzureTempStorageConfig d = Inr (temporary_storage (azure cfg))"
    by blast
  from vt have st: "str_field d ''account_name'' = Inr (account_name (temporary_storage (azure cfg)))"
    "str_field d ''container'' = Inr (container (temporary_storage (azure cfg)))"
    by (auto simp: validate_AzureTempStorageConfig_def collect_Inr_iff)
  have storage: "str_at doc [''azure'', ''temporary_storage'', name] = Some x"
    if "str_field d name = Inr x" for name x
    using str_field_Inr [OF that] by (auto simp: str_at_def root a az ts)
  from model_field_Inr [OF dk] obtain k d' where
    k: "map_of root ''docker'' = Some k" "dict_validator k = Some d'"
    and vd: "validate_DockerConfig d' = Inr (docker cfg)"
    by blast
  from vd have "str_field d' ''image'' = Inr (image (docker cfg))"
    by (auto simp: validate_DockerConfig_def collect_Inr_iff)
  from str_field_Inr [OF this] have img: "str_at doc [''docker'', ''image''] = Some (image (docker cfg))"
    by (auto simp: str_at_def root k)
  from azure [OF s(1)] azure [OF s(2)] azure [OF s(3)] azure [OF s(4)]
    storage [OF st(1)] storage [OF st(2)] img
  show ?thesis by simp
qed

lemma at_path_snoc:
  "at_path v (ps @ [k]) =
     (case at_path v ps of
        None \<Rightarrow> None
      | Some sec \<Rightarrow> (case dict_validator sec of None \<Rightarrow> None | Some d \<Rightarrow> map_of d k))"
  by (induction ps arbitrary: v) (auto split: option.splits)

lemma accepted_str_at:
  assumes "parse_obj doc = Inr cfg" and "p \<in> set required_str_fields"
  shows "str_at doc p \<noteq> None"
  using required_str_fields_disj [OF assms(2)] parse_obj_str_fields [OF assms(1)]
  by (elim disjE) simp_all

text \<open>Where the errors of a field are reported, and that an accepted field reports none.\<close>

lemma str_field_errors_loc: "(l, e) \<in> set (errors_of (str_field d n)) \<Longrightarrow> l = [n]"
  by (auto simp: str_field_def errors_of_def split: option.splits raw.splits sum.splits if_splits)

lemma mem_below_iff: "(l, e) \<in> set (below n es) \<longleftrightarrow> (\<exists>l'. l = n # l' \<and> (l', e) \<in> set es)"
  by (force simp: below_def)

lemma model_field_errors_loc:
  "(l, e) \<in> set (errors_of (model_field validate d n)) \<Longrightarrow> \<exists>l'. l = n # l'"
  by (auto simp: model_field_def errors_of_def mem_below_iff
      split: option.splits raw.splits sum.splits if_splits)

lemma resources_field_errors_loc:
  "(l, e) \<in> set (errors_of (resources_field d)) \<Longrightarrow> \<exists>l'. l = ''resources'' # l'"
  by (auto simp: resources_field_def errors_of_def mem_below_iff
      split: option.splits raw.splits sum.splits if_splits)

lemma str_field_accepted:
  assumes "map_of d name = Some v" and "str_validator v = Inr s"
  shows "str_field d name = Inr s"
  using assms by (cases v) (auto simp: str_field_def split: if_splits)

lemma azure_no_error:
  assumes "name \<in> {''experiment_name'', ''workspace_name'', ''resource_group'', ''cluster_name''}"
    and "str_field az name = Inr s"
  shows "([name], e) \<notin> set (errors_of (validate_AzureMLConfig az))"
proof
  assume "([name], e) \<in> set (errors_of (validate_AzureMLConfig az))"
  then consider
      (str) n where "([name], e) \<in> set (errors_of (str_field az n))"
    | (storage) "([name], e) \<in> set (errors_of
          (model_field validate_AzureTempStorageConfig az ''temporary_storage''))"
    | (resources) "([name], e) \<in> set (errors_of (resources_field az))"
    unfolding errors_of_validate_AzureMLConfig by auto
  then show False
  proof cases
    case (str n)
    from str_field_errors_loc [OF this] have "n = name" by simp
    with str assms(2) show False by (simp add: errors_of_simps)
  next
    case storage
    from model_field_errors_loc [OF this] have "name = ''temporary_storage''" by simp
    with assms(1) show False by simp
  next
    case resources
    from resources_field_errors_loc [OF this] have "name = ''resources''" by simp
    with assms(1) show False by simp
  qed
qed

lemma storage_no_error:
  assumes "str_field d name = Inr s"
  shows "([name], e) \<notin> set (errors_of (validate_AzureTempStorageConfig d))"
proof
  assume "([name], e) \<in> set (errors_of (validate_AzureTempStorageConfig d))"
  then obtain n where n: "([name], e) \<in> set (errors_of (str_field d n))"
    unfolding errors_of_validate_AzureTempStorageConfig by auto
  from str_field_errors_loc [OF this] have "n = name" by simp
  with n assms show False by (simp add: errors_of_simps)
qed

lemma azure_field_accepted:
  assumes "str_at doc [''azure'', name] = Some s"
    and "name \<in> {''experiment_name'', ''workspace_name'', ''resource_group'', ''cluster_name''}"
  shows "([''azure'', name], e) \<notin> set (errors_of (parse_obj doc))"
proof -
  from assms(1) obtain root a az v where root: "dict_validator doc = Some root"
    and a: "map_of root ''azure'' = Some a" and az: "dict_validator a = Some az"
    and v: "map_of az name = Some v" "str_validator v = Inr s"
    by (auto simp: str_at_def split: option.splits sum.splits)
  note m = model_field_errors(2) [OF a az, of validate_AzureMLConfig]
  from azure_no_error [OF assms(2) str_field_accepted [OF v]]
  have "([''azure'', name], e) \<notin> set (below ''azure'' (errors_of (validate_AzureMLConfig az)))"
    by (simp add: mem_below_iff)
  moreover have "([''azure'', name], e)
      \<notin> set (errors_of (model_field validate_DockerConfig root ''docker''))"
    using model_field_errors_loc [of "[''azure'', name]" e validate_DockerConfig root "''docker''"]
    by auto
  ultimately show ?thesis
    by (simp add: parse_obj_def root errors_of_validate_KedroAzureMLConfig m)
qed

lemma storage_field_accepted:
  assumes "str_at doc [''azure'', ''temporary_storage'', name] = Some s"
  shows "([''azure'', ''temporary_storage'', name], e) \<notin> set (errors_of (parse_obj doc))"
proof -
  from assms(1) obtain root a az ts d v where root: "dict_validator doc = Some root"
    and a: "map_of root ''azure'' = Some a" and az: "dict_validator a = Some az"
    and ts: "map_of az ''temporary_storage'' = Some ts" and d: "dict_validator ts = Some d"
    and v: "map_of d name = Some v" "str_validator v = Inr s"
    by (auto simp: str_at_def split: option.splits sum.splits)
  note m = model_field_errors(2) [OF a az, of validate_AzureMLConfig]
  note n = model_field_errors(2) [OF ts d, of validate_AzureTempStorageConfig]
  have "([''temporary_storage'', name], e) \<notin> set (errors_of (validate_AzureMLConfig az))"
  proof
    assume "([''temporary_storage'', name], e) \<in> set (errors_of (validate_AzureMLConfig az))"
    then consider
        (str) n where "([''temporary_storage'', name], e) \<in> set (errors_of (str_field az n))"
      | (storage) "([''temporary_storage'', name], e) \<in> set (errors_of
            (model_field validate_AzureTempStorageConfig az ''temporary_storage''))"
      | (resources) "([''temporary_storage'', name], e) \<in> set (errors_of (resources_field az))"
      unfolding errors_of_validate_AzureMLConfig by auto
    then show False
    proof cases
      case (str n)
      from str_field_errors_loc [OF this] show False by simp
    next
      case storage
      with storage_no_error [OF str_field_accepted [OF v]] show False
        by (simp add: n mem_below_iff)
    next
      case resources
      from resources_field_errors_loc [OF this] show False by simp
    qed
  qed
  then have "([''azure'', ''temporary_storage'', name], e)
      \<notin> set (below ''azure'' (errors_of (validate_AzureMLConfig az)))"
    by (simp add: mem_below_iff)
  moreover have "([''azure'', ''temporary_storage'', name], e)
      \<notin> set (errors_of (model_field validate_DockerConfig root ''docker''))"
    using model_field_errors_loc
      [of "[''azure'', ''temporary_storage'', name]" e validate_DockerConfig root "''docker''"]
    by auto
  ultimately show ?thesis
    by (simp add: parse_obj_def root errors_of_validate_KedroAzureMLConfig m)
qed

lemma docker_field_accepted:
  assumes "str_at doc [''docker'', ''image''] = Some s"
  shows "([''docker'', ''image''], e) \<notin> set (errors_of (parse_obj doc))"
proof -
  from assms(1) obtain root k d v where root: "dict_validator doc = Some root"
    and k: "map_of root ''docker'' = Some k" and d: "dict_validator k = Some d"
    and v: "map_of d ''image'' = Some v" "str_validator v = Inr s"
    by (auto simp: str_at_def split: option.splits sum.splits)
  note m = model_field_errors(2) [OF k d, of validate_DockerConfig]
  have "([''image''], e) \<notin> set (errors_of (validate_DockerConfig d))"
    by (simp add: errors_of_validate_DockerConfig str_field_accepted [OF v] errors_of_simps)
  then have "([''docker'', ''image''], e)
      \<notin> set (below ''docker'' (errors_of (validate_DockerConfig d)))"
    by (simp add: mem_below_iff)
  moreover have "([''docker'', ''image''], e)
      \<notin> set (errors_of (model_field validate_AzureMLConfig root ''azure''))"
    using model_field_errors_loc
      [of "[''docker'', ''image'']" e validate_AzureMLConfig root "''azure''"]
    by auto
  ultimately show ?thesis
    by (simp add: parse_obj_def root errors_of_validate_KedroAzureMLConfig m)
qed

lemma accepted_field_no_error:
  assumes "p \<in> set required_str_fields" and "str_at doc p = Some s"
  shows "(p, e) \<notin> set (errors_of (parse_obj doc))"
  using required_str_fields_disj [OF assms(1)]
proof (elim disjE)
  assume "p = [''azure'', ''experiment_name'']"
  with assms(2) azure_field_accepted [of doc "''experiment_name''" s e] show ?thesis by simp
next
  assume "p = [''azure'', ''workspace_name'']"
  with assms(2) azure_field_accepted [of doc "''workspace_name''" s e] show ?thesis by simp
next
  assume "p = [''azure'', ''resource_group'']"
  with assms(2) azure_field_accepted [of doc "''resource_group''" s e] show ?thesis by simp
next
  assume "p = [''azure'', ''cluster_name'']"
  with assms(2) azure_field_accepted [of doc "''cluster_name''" s e] show ?thesis by simp
next
  assume "p = [''azure'', ''temporary_storage'', ''account_name'']"
  with assms(2) storage_field_accepted [of doc "''account_name''" s e] show ?thesis by simp
next
  assume "p = [''azure'', ''temporary_storage'', ''container'']"
  with assms(2) storage_field_accepted [of doc "''container''" s e] show ?thesis by simp
next
  assume "p = [''docker'', ''image'']"
  with assms(2) docker_field_accepted [of doc s e] show ?thesis by simp
qed

lemma accepted_config_field:
  assumes "p \<in> set required_str_fields" and "parse_obj doc = Inr cfg"
  shows "config_field cfg p = str_at doc p"
  using required_str_fields_disj [OF assms(1)] parse_obj_str_fields [OF assms(2)]
  by (elim disjE) (simp_all add: config_field_def)

text \<open>The number of digits of \<^verbatim>\<open>str\<close> of a natural number.\<close>

lemma length_str_nat:
  "0 < k \<Longrightarrow> k < length (str_nat n) \<longleftrightarrow> 10 ^ k \<le> n"
proof (induction n arbitrary: k rule: str_nat.induct)
  case (1 n)
  show ?case
  proof (cases "n < 10")
    case True
    then have len: "length (str_nat n) = 1"
      by (subst str_nat.simps) simp
    have "(10::nat) ^ 1 \<le> 10 ^ k"
      using "1.prems" by (intro power_increasing) simp_all
    with True have "\<not> 10 ^ k \<le> n" by simp
    with len "1.prems" show ?thesis by simp
  next
    case False
    then have len: "length (str_nat n) = length (str_nat (n div 10)) + 1"
      by (subst str_nat.simps) simp
    show ?thesis
    proof (cases "k = 1")
      case True
      have "0 < length (str_nat (n div 10))"
        by (subst str_nat.simps) simp
      with False True len show ?thesis by simp
    next
      case k: False
      with "1.prems" have "0 < k - 1" by simp
      from "1.IH" [OF False this]
      have "k - 1 < length (str_nat (n div 10)) \<longleftrightarrow> 10 ^ (k - 1) \<le> n div 10" .
      also have "\<dots> \<longleftrightarrow> 10 ^ (k - 1) * 10 \<le> n"
        by (simp add: less_eq_div_iff_mult_less_eq)
      also have "(10::nat) ^ (k - 1) * 10 = 10 ^ k"
        using "1.prems" by (cases k) simp_all
      finally show ?thesis
        using len "1.prems" by auto
    qed
  qed
qed

lemma str_validator_RInt:
  "str_validator (RInt i) =
     (if 10 ^ int_max_str_digits \<le> \<bar>i\<bar> then Inl IntTooLong else Inr (str_int i))"
proof -
  have "int_max_str_digits < length (str_nat (nat \<bar>i\<bar>))
      \<longleftrightarrow> 10 ^ int_max_str_digits \<le> nat \<bar>i\<bar>"
    by (rule length_str_nat) (simp add: int_max_str_digits_def)
  also have "\<dots> \<longleftrightarrow> 10 ^ int_max_str_digits \<le> \<bar>i\<bar>"
    by (simp add: le_nat_iff)
  finally show ?thesis by simp
qed

text \<open>
  C4, amended. Let a required \<^verbatim>\<open>str\<close> field give no string: the field, or a section on the
  way to it, is missing, null or of a kind the validator refuses (a mapping, or an integer
  of more than 4300 digits). Then parsing fails with a \<^verbatim>\<open>ValidationError\<close> and returns no
  configuration; and when the section of the field is a mapping, the error names the path
  of the field (\<^verbatim>\<open>field required\<close> when the field is missing). This holds in particular
  for a missing \<^verbatim>\<open>azure.temporary_storage.account_name\<close>. A scalar of another primitive
  type is not refused for its type: an integer below \<open>10 ^ 4300\<close> in absolute value and a
  boolean give their string form. A field that gives a string has no error at its path,
  and the configuration of an accepted document holds that string.
\<close>

theorem refused_field_fails:
  assumes "p \<in> set required_str_fields"
  shows "(str_at doc p = None \<longrightarrow>
      (\<exists>errors. parse_obj doc = Inl errors
         \<and> (\<forall>sec d. at_path doc (butlast p) = Some sec \<and> dict_validator sec = Some d \<longrightarrow>
              (p, case map_of d (last p) of None \<Rightarrow> Missing | Some RNull \<Rightarrow> NoneNotAllowed
                    | Some (RInt i) \<Rightarrow> IntTooLong | Some v \<Rightarrow> StrError) \<in> set errors)))
    \<and> (\<forall>i. at_path doc p = Some (RInt i) \<longrightarrow>
          str_at doc p = (if 10 ^ int_max_str_digits \<le> \<bar>i\<bar> then None else Some (str_int i)))
    \<and> (\<forall>b. at_path doc p = Some (RBool b) \<longrightarrow>
          str_at doc p = Some (if b then ''True'' else ''False''))
    \<and> (\<forall>s. str_at doc p = Some s \<longrightarrow>
          (\<forall>e. (p, e) \<notin> set (errors_of (parse_obj doc)))
          \<and> (\<forall>cfg. parse_obj doc = Inr cfg \<longrightarrow> config_field cfg p = Some s))"
proof (intro conjI impI allI)
  assume none: "str_at doc p = None"
  have "isl (parse_obj doc)"
  proof (cases "parse_obj doc")
    case (Inr cfg)
    from accepted_str_at [OF this assms] none show ?thesis by simp
  qed simp
  then obtain errors where errors: "parse_obj doc = Inl errors"
    by (cases "parse_obj doc") simp_all
  have "(p, case map_of d (last p) of None \<Rightarrow> Missing | Some RNull \<Rightarrow> NoneNotAllowed
                | Some (RInt i) \<Rightarrow> IntTooLong | Some v \<Rightarrow> StrError) \<in> set errors"
    if sec: "at_path doc (butlast p) = Some sec" and d: "dict_validator sec = Some d" for sec d
  proof -
    from required_str_fields_disj [OF assms] have "p \<noteq> []" by auto
    then have "at_path doc p = at_path doc (butlast p @ [last p])" by simp
    also have "\<dots> = map_of d (last p)"
      by (simp only: at_path_snoc sec d option.case)
    finally have "case map_of d (last p) of None \<Rightarrow> True | Some v \<Rightarrow> isl (str_validator v)"
      using none by (simp add: str_at_def split: option.splits sum.splits)
    from refused_field_error [OF assms sec d this] errors show ?thesis by simp
  qed
  with errors show "\<exists>errors. parse_obj doc = Inl errors
      \<and> (\<forall>sec d. at_path doc (butlast p) = Some sec \<and> dict_validator sec = Some d \<longrightarrow>
            (p, case map_of d (last p) of None \<Rightarrow> Missing | Some RNull \<Rightarrow> NoneNotAllowed
                  | Some (RInt i) \<Rightarrow> IntTooLong | Some v \<Rightarrow> StrError) \<in> set errors)"
    by blast
next
  fix i assume "at_path doc p = Some (RInt i)"
  then show "str_at doc p
      = (if 10 ^ int_max_str_digits \<le> \<bar>i\<bar> then None else Some (str_int i))"
    by (simp add: str_at_def str_validator_RInt del: str_validator.simps(2))
next
  fix b assume "at_path doc p = Some (RBool b)"
  then show "str_at doc p = Some (if b then ''True'' else ''False'')"
    by (simp add: str_at_def)
next
  fix s e assume "str_at doc p = Some s"
  from accepted_field_no_error [OF assms this]
  show "(p, e) \<notin> set (errors_of (parse_obj doc))" .
next
  fix s cfg assume "str_at doc p = Some s" "parse_obj doc = Inr cfg"
  with accepted_config_field [OF assms, of doc cfg]
  show "config_field cfg p = Some s" by simp
qed

lemma str_validator_123: "str_validator (RInt 123) = Inr ''123''"
  by code_simp

theorem refused_field_fails_witness:
  "[''azure'', ''temporary_storage'', ''account_name''] \<in> set required_str_fields
   \<and> str_at (example_document (RStr ''exp'') [(''container'', RStr ''box'')] [])
        [''azure'', ''temporary_storage'', ''account_name''] = None
   \<and> at_path (example_document (RStr ''exp'') [(''container'', RStr ''box'')] [])
        [''azure'', ''temporary_storage''] = Some (RDict [(''container'', RStr ''box'')])
   \<and> isl (parse_obj (example_document (RStr ''exp'') [(''container'', RStr ''box'')] []))
   \<and> ([''azure'', ''temporary_storage'', ''account_name''], Missing)
       \<in> set (projl (parse_obj (example_document (RStr ''exp'') [(''container'', RStr ''box'')] [])))
   \<and> at_path (example_document (RStr ''exp'')
          [(''account_name'', RInt 123), (''container'', RStr ''box'')] [])
        [''azure'', ''temporary_storage'', ''account_name''] = Some (RInt 123)
   \<and> str_at (example_document (RStr ''exp'')
          [(''account_name'', RInt 123), (''container'', RStr ''box'')] [])
        [''azure'', ''temporary_storage'', ''account_name''] = Some ''123''
   \<and> ([''azure'', ''temporary_storage'', ''account_name''], StrError)
       \<notin> set (errors_of (parse_obj (example_document (RStr ''exp'')
          [(''account_name'', RInt 123), (''container'', RStr ''box'')] [])))
   \<and> config_field (projr (parse_obj (example_document (RStr ''exp'')
          [(''account_name'', RInt 123), (''container'', RStr ''box'')] [])))
        [''azure'', ''temporary_storage'', ''account_name''] = Some ''123''"
proof -
  let ?doc = "example_document (RStr ''exp'') [(''container'', RStr ''box'')] []"
  let ?doc' = "example_document (RStr ''exp'')
          [(''account_name'', RInt 123), (''container'', RStr ''box'')] []"
  let ?d = "[(''container'', RStr ''box'')]"
  let ?p = "[''azure'', ''temporary_storage'', ''account_name'']"
  have 1: "?p \<in> set required_str_fields"
    by (simp add: required_str_fields_def)
  have 2: "str_at ?doc ?p = None"
    by (simp add: str_at_def example_document_def)
  have 3: "at_path ?doc (butlast ?p) = Some (RDict ?d)"
    by (simp add: example_document_def)
  have 4: "dict_validator (RDict ?d) = Some ?d"
    by simp
  have 5: "map_of ?d (last ?p) = None"
    by simp
  from refused_field_fails [OF 1, of ?doc] 2 3 4 5
  have refused: "isl (parse_obj ?doc) \<and> (?p, Missing) \<in> set (projl (parse_obj ?doc))"
    by fastforce
  have 6: "at_path ?doc' ?p = Some (RInt 123)"
    by (simp add: example_document_def)
  have 7: "str_at ?doc' ?p = Some ''123''"
    by (simp add: str_at_def example_document_def str_validator_123
        del: str_validator.simps(2))
  have ok: "\<not> isl (parse_obj ?doc')"
    by (simp add: document_defs config_defs str_validator_123 del: str_validator.simps(2))
  then have 8: "parse_obj ?doc' = Inr (projr (parse_obj ?doc'))"
    by (cases "parse_obj ?doc'") simp_all
  from refused_field_fails [OF 1, of ?doc'] 7 8
  have accepted: "(?p, StrError) \<notin> set (errors_of (parse_obj ?doc'))
      \<and> config_field (projr (parse_obj ?doc')) ?p = Some ''123''"
    by blast
  from 1 2 3 6 7 refused accepted show ?thesis by simp
qed

text \<open>
  C4 claims the failure for every required field of the wrong primitive type. An integer
  where a string is required is not refused: the document with \<^verbatim>\<open>account_name: 123\<close> is
  accepted and the configuration holds the string \<^verbatim>\<open>123\<close>.
\<close>

theorem integer_field_accepted_counterexample:
  "\<not> isl (parse_obj (example_document (RStr ''exp'')
            [(''account_name'', RInt 123), (''container'', RStr ''box'')] []))
   \<and> account_name (temporary_storage (azure (projr (parse_obj (example_document (RStr ''exp'')
            [(''account_name'', RInt 123), (''container'', RStr ''box'')] []))))) = ''123''"
  by (simp add: document_defs config_defs str_validator_123 del: str_validator.simps(2))

text \<open>
  C7 claims that a document with an empty required string is rejected. The document with
  the experiment name \<^verbatim>\<open>""\<close> is accepted, and the configuration holds the empty name.
\<close>

theorem empty_field_accepted_counterexample:
  "\<not> isl (parse_obj (example_document (RStr []) example_storage []))
   \<and> experiment_name (azure (projr (parse_obj (example_document (RStr []) example_storage []))))
       = []"
  by (simp add: document_defs config_defs)

text \<open>
  C7, amended. In every accepted document each of the seven required \<^verbatim>\<open>str\<close> fields is
  present with a value the validator of \<^verbatim>\<open>str\<close> takes, and the configuration holds the
  string of that value. Nothing is asked of its length.
\<close>

theorem accepted_fields_given:
  assumes "parse_obj doc = Inr cfg"
  shows "str_at doc [''azure'', ''experiment_name''] = Some (experiment_name (azure cfg))
    \<and> str_at doc [''azure'', ''workspace_name''] = Some (workspace_name (azure cfg))
    \<and> str_at doc [''azure'', ''resource_group''] = Some (resource_group (azure cfg))
    \<and> str_at doc [''azure'', ''cluster_name''] = Some (cluster_name (azure cfg))
    \<and> str_at doc [''azure'', ''temporary_storage'', ''account_name'']
        = Some (account_name (temporary_storage (azure cfg)))
    \<and> str_at doc [''azure'', ''temporary_storage'', ''container'']
        = Some (container (temporary_storage (azure cfg)))
    \<and> str_at doc [''docker'', ''image''] = Some (image (docker cfg))"
  using assms by (rule parse_obj_str_fields)

theorem accepted_fields_given_witness:
  "parse_obj (example_document (RStr []) example_storage [])
     = Inr (projr (parse_obj (example_document (RStr []) example_storage [])))
   \<and> str_at (example_document (RStr []) example_storage []) [''azure'', ''experiment_name'']
       = Some []
   \<and> experiment_name (azure (projr (parse_obj (example_document (RStr []) example_storage []))))
       = []
   \<and> str_at (example_document (RStr []) example_storage [])
         [''azure'', ''temporary_storage'', ''account_name''] = Some ''acc''
   \<and> account_name (temporary_storage (azure (projr (parse_obj
         (example_document (RStr []) example_storage []))))) = ''acc''"
proof -
  let ?doc = "example_document (RStr []) example_storage []"
  have ok: "\<not> isl (parse_obj ?doc)"
    by (simp add: document_defs config_defs)
  then have h: "parse_obj ?doc = Inr (projr (parse_obj ?doc))"
    by (cases "parse_obj ?doc") simp_all
  have 1: "str_at ?doc [''azure'', ''experiment_name''] = Some []"
    and 2: "str_at ?doc [''azure'', ''temporary_storage'', ''account_name''] = Some ''acc''"
    by (simp_all add: str_at_def document_defs)
  from accepted_fields_given [OF h] h 1 2 show ?thesis
    by simp
qed

section \<open>Properties of the dataset constructors\<close>

text \<open>
  C8 claims a \<^verbatim>\<open>ValidationError\<close> when the flavor is \<^verbatim>\<open>mlflow.pyfunc\<close> and the workflow is
  not an allowed one. With the workflow left unset the constructor raises kedro's
  \<^verbatim>\<open>DataSetError\<close>, which is not a \<^verbatim>\<open>ValidationError\<close>.
\<close>

theorem pyfunc_raises_DataSetError_counterexample:
  "raises_DataSetError
     (MlflowAbstractModelDataSet_init (\<lambda>m. Imported) (\<lambda>s. s) [] ''mlflow.pyfunc'' None
        (None :: (string \<rightharpoonup> raw) option) None None)
   \<and> \<not> raises_ValidationError
     (MlflowAbstractModelDataSet_init (\<lambda>m. Imported) (\<lambda>s. s) [] ''mlflow.pyfunc'' None
        (None :: (string \<rightharpoonup> raw) option) None None)"
  by (simp add: MlflowAbstractModelDataSet_init_def)

text \<open>
  C8, amended. Every construction with the flavor \<^verbatim>\<open>mlflow.pyfunc\<close> and a workflow that is
  neither \<^verbatim>\<open>python_model\<close> nor \<^verbatim>\<open>loader_module\<close> (an unset workflow among them) raises a
  \<^verbatim>\<open>DataSetError\<close> with the message of the source, whatever the other arguments and the
  modules installed; no dataset is returned.
\<close>

theorem pyfunc_requires_workflow:
  assumes "flavor' = ''mlflow.pyfunc''"
    and "pyfunc_workflow' \<notin> set [Some ''python_model'', Some ''loader_module'']"
  shows "MlflowAbstractModelDataSet_init import_module Path filepath' flavor' pyfunc_workflow'
           load_args' save_args' version'
    = Inl (DataSetError
        (''PyFunc models require specifying `pyfunc_workflow` '' @
         ''(set to either `python_model` or `loader_module`)''))"
  using assms by (simp add: MlflowAbstractModelDataSet_init_def)

theorem pyfunc_requires_workflow_witness:
  "None \<notin> set [Some ''python_model'', Some ''loader_module'']
   \<and> Some ''sklearn'' \<notin> set [Some ''python_model'', Some ''loader_module'']
   \<and> MlflowAbstractModelDataSet_init (\<lambda>m. Imported) (\<lambda>s. s) [] ''mlflow.pyfunc'' None
        (None :: (string \<rightharpoonup> raw) option) None None
     = Inl (DataSetError
        (''PyFunc models require specifying `pyfunc_workflow` '' @
         ''(set to either `python_model` or `loader_module`)''))
   \<and> MlflowAbstractModelDataSet_init (\<lambda>m. Imported) (\<lambda>s. s) [] ''mlflow.pyfunc'' (Some ''sklearn'')
        (None :: (string \<rightharpoonup> raw) option) None None
     = Inl (DataSetError
        (''PyFunc models require specifying `pyfunc_workflow` '' @
         ''(set to either `python_model` or `loader_module`)''))"
proof -
  have f: "''mlflow.pyfunc'' = ''mlflow.pyfunc''" by (rule refl)
  have 1: "None \<notin> set [Some ''python_model'', Some ''loader_module'']"
    and 2: "Some ''sklearn'' \<notin> set [Some ''python_model'', Some ''loader_module'']"
    by simp_all
  from pyfunc_requires_workflow [OF f 1, of "\<lambda>m. Imported" "\<lambda>s. s" "[]" "None :: (string \<rightharpoonup> raw) option" None None]
    pyfunc_requires_workflow [OF f 2, of "\<lambda>m. Imported" "\<lambda>s. s" "[]" "None :: (string \<rightharpoonup> raw) option" None None]
    1 2
  show ?thesis by blast
qed

lemma versioning_message_names_flag:
  "sublist VERSIONED_FLAG_KEY (versioning_message class_name)"
proof -
  have "versioning_message class_name =
      ([CHR 0x27] @ class_name @ [CHR 0x27] @ '' does not support versioning of the '' @
       ''underlying dataset. Please remove '' @ [CHR 0x27]) @ VERSIONED_FLAG_KEY @
      ([CHR 0x27] @ '' flag from '' @ ''the dataset definition.'')"
    by (simp add: versioning_message_def)
  then show ?thesis
    unfolding sublist_def by blast
qed

text \<open>
  C10. When the parent's constructor has left a dataset configuration: if it contains the
  version key, the constructor of \<^verbatim>\<open>AzureMLFolderDataSet\<close> raises a \<^verbatim>\<open>DataSetError\<close> whose
  message names the flag \<^verbatim>\<open>versioned\<close>, and returns no dataset; if it does not, the
  constructor returns the dataset.
\<close>

theorem folder_dataset_refuses_versioning:
  assumes "super_init dataset filepath_arg = Inr self"
  shows "(VERSION_KEY \<in> dom (dataset_config self) \<longrightarrow>
           AzureMLFolderDataSet_init super_init class_name azureml_dataset' dataset filepath_arg
             = Inl (DataSetError (versioning_message class_name))
           \<and> sublist VERSIONED_FLAG_KEY (versioning_message class_name))
    \<and> (VERSION_KEY \<notin> dom (dataset_config self) \<longrightarrow>
           AzureMLFolderDataSet_init super_init class_name azureml_dataset' dataset filepath_arg
             = Inr \<lparr>parent = self, azureml_dataset = azureml_dataset'\<rparr>)"
  using assms versioning_message_names_flag [of class_name]
  by (simp add: AzureMLFolderDataSet_init_def)


theorem folder_dataset_refuses_versioning_witness:
  "AzureMLFolderDataSet_init (\<lambda>d f. Inr \<lparr>dataset_config = d, pipeline_state = f\<rparr>)
       ''AzureMLFolderDataSet'' ''folder'' [VERSION_KEY \<mapsto> RBool True, ''type'' \<mapsto> RStr ''CSV'']
       ''filepath''
     = Inl (DataSetError (versioning_message ''AzureMLFolderDataSet''))
   \<and> sublist ''versioned'' (versioning_message ''AzureMLFolderDataSet'')
   \<and> AzureMLFolderDataSet_init (\<lambda>d f. Inr \<lparr>dataset_config = d, pipeline_state = f\<rparr>)
       ''AzureMLFolderDataSet'' ''folder'' [''type'' \<mapsto> RStr ''CSV''] ''filepath''
     = Inr \<lparr>parent = \<lparr>dataset_config = [''type'' \<mapsto> RStr ''CSV''],
                          pipeline_state = ''filepath''\<rparr>,
            azureml_dataset = ''folder''\<rparr>"
proof -
  let ?super = "\<lambda>d f. Inr \<lparr>dataset_config = d, pipeline_state = f\<rparr>
    :: exception + (raw, string) AzureMLPipelineDataSet"
  let ?versioned = "[VERSION_KEY \<mapsto> RBool True, ''type'' \<mapsto> RStr ''CSV'']"
  let ?plain = "[''type'' \<mapsto> RStr ''CSV'']"
  have 1: "?super ?versioned ''filepath''
      = Inr \<lparr>dataset_config = ?versioned, pipeline_state = ''filepath''\<rparr>"
    and 2: "?super ?plain ''filepath''
      = Inr \<lparr>dataset_config = ?plain, pipeline_state = ''filepath''\<rparr>"
    by simp_all
  have 3: "VERSION_KEY \<in> dom (dataset_config
      \<lparr>dataset_config = ?versioned, pipeline_state = ''filepath''\<rparr>)"
    and 4: "VERSION_KEY \<notin> dom (dataset_config
      \<lparr>dataset_config = ?plain, pipeline_state = ''filepath''\<rparr>)"
    by (simp_all add: VERSION_KEY_def)
  from folder_dataset_refuses_versioning [of ?super, OF 1, of "''AzureMLFolderDataSet''" "''folder''"]
    folder_dataset_refuses_versioning [of ?super, OF 2, of "''AzureMLFolderDataSet''" "''folder''"]
    3 4
  show ?thesis by (simp add: VERSIONED_FLAG_KEY_def)
qed

end
